theory Spec2Isabelle
  imports Complex_Main
begin

section \<open>Vectors\<close>

text \<open>
  \<^verbatim>\<open>THREE.Vector3\<close> with the operations the combat AI uses. JavaScript numbers are
  modelled as real numbers; the fields are called \<open>vx\<close>, \<open>vy\<close>, \<open>vz\<close> for the source's
  \<open>x\<close>, \<open>y\<close>, \<open>z\<close>.
\<close>

record Vector3 =
  vx :: real
  vy :: real
  vz :: real

definition vadd :: "Vector3 \<Rightarrow> Vector3 \<Rightarrow> Vector3" where
  "vadd a b = \<lparr> vx = vx a + vx b, vy = vy a + vy b, vz = vz a + vz b \<rparr>"

definition vsub :: "Vector3 \<Rightarrow> Vector3 \<Rightarrow> Vector3" where
  "vsub a b = \<lparr> vx = vx a - vx b, vy = vy a - vy b, vz = vz a - vz b \<rparr>"

definition multiplyScalar :: "Vector3 \<Rightarrow> real \<Rightarrow> Vector3" where
  "multiplyScalar a s = \<lparr> vx = vx a * s, vy = vy a * s, vz = vz a * s \<rparr>"

definition distanceToSquared :: "Vector3 \<Rightarrow> Vector3 \<Rightarrow> real" where
  "distanceToSquared a b =
     (let dx = vx a - vx b; dy = vy a - vy b; dz = vz a - vz b
      in dx * dx + dy * dy + dz * dz)"

definition distanceTo :: "Vector3 \<Rightarrow> Vector3 \<Rightarrow> real" where
  "distanceTo a b = sqrt (distanceToSquared a b)"

definition vlength :: "Vector3 \<Rightarrow> real" where
  "vlength a = sqrt (vx a * vx a + vy a * vy a + vz a * vz a)"

text \<open>\<^verbatim>\<open>normalize()\<close> divides by \<^verbatim>\<open>length() || 1\<close>: the zero vector stays zero.\<close>

definition normalize_v :: "Vector3 \<Rightarrow> Vector3" where
  "normalize_v a =
     (let l = (if vlength a = 0 then 1 else vlength a)
      in \<lparr> vx = vx a / l, vy = vy a / l, vz = vz a / l \<rparr>)"

text \<open>Rotation about the axis \<open>(0, 1, 0)\<close>, the only use of \<^verbatim>\<open>applyAxisAngle\<close>.\<close>

definition applyAxisAngleY :: "Vector3 \<Rightarrow> real \<Rightarrow> Vector3" where
  "applyAxisAngleY a t =
     \<lparr> vx = vx a * cos t + vz a * sin t, vy = vy a, vz = vz a * cos t - vx a * sin t \<rparr>"

definition atan2 :: "real \<Rightarrow> real \<Rightarrow> real" where
  "atan2 b a =
     (if a > 0 then arctan (b / a)
      else if a < 0 \<and> b \<ge> 0 then arctan (b / a) + pi
      else if a < 0 then arctan (b / a) - pi
      else if b > 0 then pi / 2
      else if b < 0 then - pi / 2
      else 0)"

section \<open>Numbers that may be missing\<close>

text \<open>
  The value of a field that the code treats as a number but does not always set:
  \<open>Undefined\<close> is the field that was never assigned, \<open>NaN\<close> the result of arithmetic on
  it. \<open>js_plus\<close> is \<^verbatim>\<open>a + k\<close> (and \<^verbatim>\<open>a - k\<close> for a negative \<open>k\<close>), \<open>Math_min\<close> and
  \<open>Math_max\<close> are \<^verbatim>\<open>Math.min(k, a)\<close> and \<^verbatim>\<open>Math.max(k, a)\<close>, and \<open>js_greater\<close> is
  \<^verbatim>\<open>a > b\<close>, which is false as soon as one side is not a number.
\<close>

datatype JsNumber = Num real | NaN | Undefined

fun isNumber :: "JsNumber \<Rightarrow> bool" where
  "isNumber (Num a) = True"
| "isNumber NaN = False"
| "isNumber Undefined = False"

fun js_plus :: "JsNumber \<Rightarrow> real \<Rightarrow> JsNumber" where
  "js_plus (Num a) k = Num (a + k)"
| "js_plus NaN k = NaN"
| "js_plus Undefined k = NaN"

fun Math_min :: "real \<Rightarrow> JsNumber \<Rightarrow> JsNumber" where
  "Math_min k (Num a) = Num (min k a)"
| "Math_min k NaN = NaN"
| "Math_min k Undefined = NaN"

fun Math_max :: "real \<Rightarrow> JsNumber \<Rightarrow> JsNumber" where
  "Math_max k (Num a) = Num (max k a)"
| "Math_max k NaN = NaN"
| "Math_max k Undefined = NaN"

fun js_greater :: "JsNumber \<Rightarrow> JsNumber \<Rightarrow> bool" where
  "js_greater (Num a) (Num b) = (a > b)"
| "js_greater _ _ = False"

section \<open>The squad coordinator: threat level\<close>

datatype FormationRole = leader_role | flanker | support | lone

datatype FormationType = surround | pincer | line | scatter

record FormationGroup =
  fid :: string
  leader :: string
  members :: "string list"
  targetPosition :: Vector3
  formationType :: FormationType
  lastUpdate :: int

text \<open>
  The singleton \<^verbatim>\<open>AICoordinator\<close>. \<open>formations\<close> is the \<^verbatim>\<open>Map\<close> in insertion order.
  \<open>pendingDecays\<close> counts the callbacks that \<^verbatim>\<open>setTimeout\<close> has scheduled and that have
  not run yet. The \<^verbatim>\<open>alertNetwork\<close> map is never read or written and is left out.
\<close>

record AICoordinator =
  formations :: "(string \<times> FormationGroup) list"
  lastFormationUpdate :: int
  playerThreatLevel :: int
  pendingDecays :: nat

definition new_AICoordinator :: AICoordinator where
  "new_AICoordinator =
     \<lparr> formations = [], lastFormationUpdate = 0, playerThreatLevel = 0, pendingDecays = 0 \<rparr>"

datatype ThreatAction = kill | damage | telekinesis | headshot

fun threatDelta :: "ThreatAction \<Rightarrow> int" where
  "threatDelta kill = 15"
| "threatDelta damage = 5"
| "threatDelta telekinesis = 10"
| "threatDelta headshot = 20"

definition updatePlayerThreatLevel :: "ThreatAction \<Rightarrow> AICoordinator \<Rightarrow> AICoordinator" where
  "updatePlayerThreatLevel action c =
     c\<lparr> playerThreatLevel := min 100 (playerThreatLevel c + threatDelta action),
        pendingDecays := Suc (pendingDecays c) \<rparr>"

text \<open>The body of the callback passed to \<^verbatim>\<open>setTimeout\<close>.\<close>

definition decayCallback :: "AICoordinator \<Rightarrow> AICoordinator" where
  "decayCallback c = c\<lparr> playerThreatLevel := max 0 (playerThreatLevel c - 5) \<rparr>"

definition cleanup :: "AICoordinator \<Rightarrow> AICoordinator" where
  "cleanup c = c\<lparr> formations := [], playerThreatLevel := 0 \<rparr>"

text \<open>
  What can happen to the threat level: a call of \<^verbatim>\<open>updatePlayerThreatLevel\<close>, one of the
  scheduled callbacks running (only when one is pending), or \<^verbatim>\<open>cleanup\<close>.
\<close>

datatype ThreatEvent = Call ThreatAction | TimerFires | Cleanup

fun threatStep :: "AICoordinator \<Rightarrow> ThreatEvent \<Rightarrow> AICoordinator" where
  "threatStep c (Call a) = updatePlayerThreatLevel a c"
| "threatStep c TimerFires =
     (if pendingDecays c > 0
      then (decayCallback c)\<lparr> pendingDecays := pendingDecays c - 1 \<rparr>
      else c)"
| "threatStep c Cleanup = cleanup c"

definition threatRun :: "ThreatEvent list \<Rightarrow> AICoordinator \<Rightarrow> AICoordinator" where
  "threatRun evs c = foldl threatStep c evs"

section \<open>Enemies\<close>

datatype EnemyType = normal | scout | heavy | ranged | exploder | shielded | drone

text \<open>The entries of \<^verbatim>\<open>ENEMY_CONFIGS\<close> that the methods below read.\<close>

record EnemyConfig =
  maxHealth_config :: real
  size_config :: real
  hasShield :: bool
  canFly :: bool

fun ENEMY_CONFIGS :: "EnemyType \<Rightarrow> EnemyConfig" where
  "ENEMY_CONFIGS normal = \<lparr> maxHealth_config = 120, size_config = 1.0, hasShield = False, canFly = False \<rparr>"
| "ENEMY_CONFIGS scout = \<lparr> maxHealth_config = 60, size_config = 0.7, hasShield = False, canFly = False \<rparr>"
| "ENEMY_CONFIGS heavy = \<lparr> maxHealth_config = 300, size_config = 1.4, hasShield = False, canFly = False \<rparr>"
| "ENEMY_CONFIGS ranged = \<lparr> maxHealth_config = 80, size_config = 0.9, hasShield = False, canFly = False \<rparr>"
| "ENEMY_CONFIGS exploder = \<lparr> maxHealth_config = 90, size_config = 1.1, hasShield = False, canFly = False \<rparr>"
| "ENEMY_CONFIGS shielded = \<lparr> maxHealth_config = 200, size_config = 1.3, hasShield = True, canFly = False \<rparr>"
| "ENEMY_CONFIGS drone = \<lparr> maxHealth_config = 40, size_config = 0.5, hasShield = False, canFly = True \<rparr>"

text \<open>
  The fields of \<^verbatim>\<open>AIState\<close> and of \<^verbatim>\<open>Enemy\<close> that the methods below read or write.
  The interface \<^verbatim>\<open>AIState\<close> declares \<open>alertLevel\<close> as a number, but the constructor of
  \<^verbatim>\<open>Enemy\<close> does not set it, so the field is a \<open>JsNumber\<close>. The role stored in the
  \<^verbatim>\<open>AIState\<close> is called \<open>aiFormationRole\<close>, the enemy's id \<open>eid\<close>.
\<close>

record AIState =
  alertLevel :: JsNumber
  lastKnownPlayerPosition :: "Vector3 option"
  coverPosition :: "Vector3 option"
  aiFormationRole :: "FormationRole option"
  alertedBy :: "string option"
  lastDamageTime :: int

record Enemy =
  eid :: string
  etype :: EnemyType
  position :: Vector3
  health :: real
  maxHealth :: real
  isThrown :: bool
  throwVelocity :: Vector3
  stuckCheckTimer :: int
  lastPosition :: Vector3
  shieldActive :: bool
  flyHeight :: real
  explosionTriggered :: bool
  aiState :: AIState
  formationRole :: "FormationRole option"
  formationId :: "string option"
  lastPlayerSightTime :: int
  moveTimer :: int

definition config :: "Enemy \<Rightarrow> EnemyConfig" where
  "config e = ENEMY_CONFIGS (etype e)"

definition isAlive :: "Enemy \<Rightarrow> bool" where
  "isAlive e = (health e > 0)"

definition isBeingThrown :: "Enemy \<Rightarrow> bool" where
  "isBeingThrown e = isThrown e"

definition setFormationRole :: "FormationRole \<Rightarrow> string \<Rightarrow> Enemy \<Rightarrow> Enemy" where
  "setFormationRole role formId e =
     e\<lparr> formationRole := Some role, formationId := Some formId,
        aiState := (aiState e)\<lparr> aiFormationRole := Some role \<rparr> \<rparr>"

definition receiveAlert :: "string \<Rightarrow> Vector3 \<Rightarrow> Enemy \<Rightarrow> Enemy" where
  "receiveAlert alerterId playerPosition e =
     e\<lparr> aiState := (aiState e)\<lparr> alertLevel := Math_min 100 (js_plus (alertLevel (aiState e)) 30),
                                 lastKnownPlayerPosition := Some playerPosition,
                                 alertedBy := Some alerterId \<rparr>,
        moveTimer := 0 \<rparr>"

text \<open>\<^verbatim>\<open>explode\<close>, without the particle effect.\<close>

definition explode_enemy :: "Enemy \<Rightarrow> Enemy" where
  "explode_enemy e = (if explosionTriggered e then e else e\<lparr> explosionTriggered := True, health := 0 \<rparr>)"

text \<open>
  Enemies are objects that several arrays share and that methods mutate in place. The
  objects live in a store, a list of \<open>Enemy\<close> records; a reference is an index into it, and
  an array of enemies is a list of references. Every reference is below the length of the
  store.
\<close>

type_synonym EnemyRef = nat
type_synonym EnemyStore = "Enemy list"

definition alertOne :: "string \<Rightarrow> Vector3 \<Rightarrow> EnemyRef \<Rightarrow> EnemyStore \<Rightarrow> EnemyStore" where
  "alertOne alerterId pos enemy store =
     (if eid (store ! enemy) \<noteq> alerterId \<and> isAlive (store ! enemy)
      then (if distanceTo (position (store ! enemy)) pos \<le> 15
            then store[enemy := receiveAlert alerterId pos (store ! enemy)]
            else store)
      else store)"

definition alertNearbyEnemies ::
  "string \<Rightarrow> Vector3 \<Rightarrow> EnemyRef list \<Rightarrow> EnemyStore \<Rightarrow> EnemyStore" where
  "alertNearbyEnemies alerterId pos enemies store = fold (alertOne alerterId pos) enemies store"

text \<open>
  The level is the collision oracle \<^verbatim>\<open>checkCollision(point, radius, height)\<close>; \<open>None\<close> is
  a missing level or a level without the oracle.
\<close>

type_synonym Level = "(Vector3 \<Rightarrow> real \<Rightarrow> real \<Rightarrow> bool) option"

definition collides :: "Level \<Rightarrow> Vector3 \<Rightarrow> real \<Rightarrow> real \<Rightarrow> bool" where
  "collides level p r h = (case level of None \<Rightarrow> False | Some checkCollision \<Rightarrow> checkCollision p r h)"

definition canSeePlayer :: "Enemy \<Rightarrow> Vector3 \<Rightarrow> Level \<Rightarrow> bool" where
  "canSeePlayer e playerPosition level =
     (case level of
        None \<Rightarrow> True
      | Some checkCollision \<Rightarrow>
          let direction = normalize_v (vsub playerPosition (position e));
              distance = distanceTo (position e) playerPosition;
              steps = \<lfloor>distance * 2\<rfloor>
          in list_all
               (\<lambda>i. \<not> checkCollision
                        (vadd (position e) (multiplyScalar direction (real_of_int i * 0.5))) 0.2 0.2)
               [1 .. steps - 1])"

text \<open>
  \<^verbatim>\<open>updateAwareness\<close> of the enemy \<open>self\<close>; \<open>now\<close> is \<^verbatim>\<open>Date.now()\<close>. The array handed to
  \<^verbatim>\<open>alertNearbyEnemies\<close> is the literal \<^verbatim>\<open>[]\<close> of the source.
\<close>

definition updateAwareness ::
  "EnemyRef \<Rightarrow> Vector3 \<Rightarrow> Level \<Rightarrow> int \<Rightarrow> EnemyStore \<Rightarrow> EnemyStore" where
  "updateAwareness self playerPosition level now store =
     (let e = store ! self;
          distance = distanceTo (position e) playerPosition;
          hasLineOfSight = canSeePlayer e playerPosition level
      in if hasLineOfSight \<and> distance < 20 then
           let e1 = e\<lparr> lastPlayerSightTime := now,
                       aiState := (aiState e)\<lparr> alertLevel := Math_min 100 (js_plus (alertLevel (aiState e)) 5),
                                                 lastKnownPlayerPosition := Some playerPosition \<rparr> \<rparr>;
               store1 = store[self := e1]
           in if js_greater (alertLevel (aiState e1)) (Num 50)
              then alertNearbyEnemies (eid e1) playerPosition [] store1
              else store1
         else
           let timeSinceLastSight = now - lastPlayerSightTime e
           in if timeSinceLastSight > 3000
              then store[self := e\<lparr> aiState := (aiState e)\<lparr> alertLevel := Math_max 0 (js_plus (alertLevel (aiState e)) (- 2)) \<rparr> \<rparr>]
              else store)"

text \<open>
  \<^verbatim>\<open>takeDamage\<close> of the enemy \<open>self\<close>. The flashes of the mesh are presentation and are
  left out.
\<close>

definition takeDamage ::
  "EnemyRef \<Rightarrow> real \<Rightarrow> bool \<Rightarrow> int \<Rightarrow> EnemyStore \<times> AICoordinator \<Rightarrow> EnemyStore \<times> AICoordinator" where
  "takeDamage self amount fromFront now w =
     (case w of (store, c) \<Rightarrow>
        let e = store ! self;
            e1 = e\<lparr> aiState := (aiState e)\<lparr> lastDamageTime := now,
                                              alertLevel := Math_min 100 (js_plus (alertLevel (aiState e)) 25) \<rparr> \<rparr>;
            store1 = alertNearbyEnemies (eid e1) (position e1) [] (store[self := e1]);
            c1 = updatePlayerThreatLevel damage c;
            e2 = store1 ! self;
            amount1 = (if hasShield (config e2) \<and> shieldActive e2 \<and> fromFront
                       then amount * 0.2 else amount);
            e3 = e2\<lparr> health := max 0 (health e2 - amount1) \<rparr>;
            e4 = (if etype e3 = exploder \<and> health e3 \<le> maxHealth e3 * 0.3 \<and> \<not> explosionTriggered e3
                  then explode_enemy e3 else e3)
        in (store1[self := e4\<lparr> aiState := (aiState e4)\<lparr> coverPosition := None \<rparr> \<rparr>], c1))"

text \<open>
  \<^verbatim>\<open>findSafeLandingPosition\<close>: the first free point on the rings of radius 1 to 5, at
  the angles \<open>k * pi / 8\<close>, else a random point clamped to the arena. \<open>rnd\<close> holds the two
  values of \<^verbatim>\<open>Math.random()\<close> of the fallback.
\<close>

definition landingCandidates :: "Enemy \<Rightarrow> Vector3 list" where
  "landingCandidates e =
     concat (map (\<lambda>radius. map (\<lambda>k.
         \<lparr> vx = vx (position e) + cos (real k * (pi / 8)) * real radius,
           vy = (if canFly (config e) then flyHeight e else 0.1),
           vz = vz (position e) + sin (real k * (pi / 8)) * real radius \<rparr>) [0 ..< 16]) [1 ..< 6])"

definition findSafeLandingPosition :: "Level \<Rightarrow> real \<times> real \<Rightarrow> Enemy \<Rightarrow> Enemy" where
  "findSafeLandingPosition level rnd e =
     (case level of
        None \<Rightarrow> e
      | Some checkCollision \<Rightarrow>
          let enemyRadius = size_config (config e) * 0.6;
              enemyHeight = size_config (config e) * 1.6
          in case find (\<lambda>p. \<not> checkCollision p enemyRadius enemyHeight) (landingCandidates e) of
               Some testPosition \<Rightarrow> e\<lparr> position := testPosition \<rparr>
             | None \<Rightarrow>
                 e\<lparr> position :=
                      \<lparr> vx = max (- 24) (min 24 ((fst rnd - 0.5) * 20)),
                        vy = (if canFly (config e) then flyHeight e else 0.1),
                        vz = max (- 24) (min 24 ((snd rnd - 0.5) * 20)) \<rparr> \<rparr>)"

text \<open>
  \<^verbatim>\<open>handleThrowPhysics\<close> of the enemy \<open>self\<close>, in the order of the source: the move
  (\<open>throwMove\<close>), the test for a stuck enemy (\<open>throwStuck\<close>), the collision with the level
  (\<open>throwCollide\<close>) and the landing (\<open>throwLand\<close>), which ends with \<^verbatim>\<open>this.takeDamage(30)\<close>.
  \<open>rnd1\<close> and \<open>rnd2\<close> feed the two possible calls of \<^verbatim>\<open>findSafeLandingPosition\<close>. The mesh
  is left out.
\<close>

definition throwMove :: "Enemy \<Rightarrow> Enemy" where
  "throwMove e =
     (let v1 = multiplyScalar (throwVelocity e) 0.95
      in e\<lparr> position := vadd (position e) (throwVelocity e),
            throwVelocity := v1\<lparr> vy := vy v1 - 0.01 \<rparr>,
            stuckCheckTimer := stuckCheckTimer e + 1 \<rparr>)"

definition throwStuck :: "Enemy \<Rightarrow> bool" where
  "throwStuck e1 =
     (stuckCheckTimer e1 > 60
      \<and> distanceTo (position e1) (lastPosition e1) < 0.1
      \<and> vlength (throwVelocity e1) < 0.05)"

definition throwCollide :: "Level \<Rightarrow> real \<times> real \<Rightarrow> Vector3 \<Rightarrow> Enemy \<Rightarrow> Enemy" where
  "throwCollide level rnd1 oldPosition e1 =
     (let e2 = (if stuckCheckTimer e1 > 60
                then e1\<lparr> lastPosition := position e1, stuckCheckTimer := 0 \<rparr> else e1);
          enemyRadius = size_config (config e2) * 0.6;
          enemyHeight = size_config (config e2) * 1.6
      in if collides level (position e2) enemyRadius enemyHeight
         then findSafeLandingPosition level rnd1 (e2\<lparr> position := oldPosition \<rparr>)
         else e2)"

definition throwLand :: "Level \<Rightarrow> real \<times> real \<Rightarrow> Enemy \<Rightarrow> Enemy" where
  "throwLand level rnd2 e3 =
     (let groundLevel = (if canFly (config e3) then 0.1 else 0.1);
          e4 = e3\<lparr> position := (position e3)\<lparr> vy := groundLevel \<rparr>,
                   isThrown := False,
                   throwVelocity := \<lparr> vx = 0, vy = 0, vz = 0 \<rparr>,
                   stuckCheckTimer := 0 \<rparr>;
          enemyRadius = size_config (config e4) * 0.6;
          enemyHeight = size_config (config e4) * 1.6
      in if collides level (position e4) enemyRadius enemyHeight
         then findSafeLandingPosition level rnd2 e4 else e4)"

definition handleThrowPhysics ::
  "EnemyRef \<Rightarrow> Level \<Rightarrow> real \<times> real \<Rightarrow> real \<times> real \<Rightarrow> int
     \<Rightarrow> EnemyStore \<times> AICoordinator \<Rightarrow> EnemyStore \<times> AICoordinator" where
  "handleThrowPhysics self level rnd1 rnd2 now w =
     (case w of (store, c) \<Rightarrow>
        let e = store ! self;
            oldPosition = position e;
            e1 = throwMove e
        in if throwStuck e1 then
             (store[self :=
                (findSafeLandingPosition level rnd1
                   (e1\<lparr> isThrown := False,
                        throwVelocity := \<lparr> vx = 0, vy = 0, vz = 0 \<rparr>,
                        position := (position e1)
                           \<lparr> vy := (if canFly (config e1) then flyHeight e1 else 0.1) \<rparr> \<rparr>))
                \<lparr> stuckCheckTimer := 0 \<rparr>], c)
           else
             let e3 = throwCollide level rnd1 oldPosition e1
             in if vy (position e3) \<le> (if canFly (config e3) then 0.1 else 0.1)
                then takeDamage self 30 True now (store[self := throwLand level rnd2 e3], c)
                else (store[self := e3], c))"

text \<open>
  The constructor of \<^verbatim>\<open>Enemy\<close>. \<open>ident\<close> is the id, which the source draws at random,
  and \<open>random\<close> the value of \<^verbatim>\<open>Math.random()\<close> for the flying height of a drone. The
  object literal for \<^verbatim>\<open>aiState\<close> has no entry \<^verbatim>\<open>alertLevel\<close>, so the field starts out
  \<open>Undefined\<close>.
\<close>

definition new_Enemy :: "string \<Rightarrow> real \<Rightarrow> Vector3 \<Rightarrow> real \<Rightarrow> EnemyType \<Rightarrow> Enemy" where
  "new_Enemy ident random pos difficulty type =
     (let cfg = ENEMY_CONFIGS type;
          mh = real_of_int \<lfloor>maxHealth_config cfg + difficulty * 20\<rfloor>;
          fh = (if canFly cfg then 2 + random * 2 else 0)
      in \<lparr> eid = ident, etype = type,
           position = (if canFly cfg then pos\<lparr> vy := fh \<rparr> else pos),
           health = mh, maxHealth = mh,
           isThrown = False, throwVelocity = \<lparr> vx = 0, vy = 0, vz = 0 \<rparr>, stuckCheckTimer = 0,
           lastPosition = \<lparr> vx = 0, vy = 0, vz = 0 \<rparr>, shieldActive = True, flyHeight = fh,
           explosionTriggered = False,
           aiState = \<lparr> alertLevel = Undefined, lastKnownPlayerPosition = None,
                       coverPosition = None, aiFormationRole = None, alertedBy = None,
                       lastDamageTime = 0 \<rparr>,
           formationRole = None, formationId = None, lastPlayerSightTime = 0, moveTimer = 0 \<rparr>)"

text \<open>
  \<open>lands\<close> says that a call of \<^verbatim>\<open>handleThrowPhysics\<close> takes the landing branch: the enemy
  is not found stuck, and after the move and the collision test it is at or below the ground
  level.
\<close>

definition lands :: "Level \<Rightarrow> real \<times> real \<Rightarrow> Enemy \<Rightarrow> bool" where
  "lands level rnd1 e =
     (\<not> throwStuck (throwMove e)
      \<and> vy (position (throwCollide level rnd1 (position e) (throwMove e))) \<le> 0.1)"




definition falling :: Enemy where
  "falling = (new_Enemy ''enemy_c'' 0 \<lparr> vx = 2, vy = 0.15, vz = 2 \<rparr> 1 normal)
                \<lparr> isThrown := True, throwVelocity := \<lparr> vx = 0, vy = - 0.1, vz = 0 \<rparr> \<rparr>"

section \<open>The squad coordinator: formations\<close>

text \<open>
  \<^verbatim>\<open>clusterEnemies\<close>: the two nested \<^verbatim>\<open>forEach\<close> loops over the same array, with the
  set \<open>visited\<close> of ids. A cluster is a list of references.
\<close>

definition clusterInner ::
  "EnemyStore \<Rightarrow> real \<Rightarrow> EnemyRef \<Rightarrow> EnemyRef
     \<Rightarrow> EnemyRef list \<times> string set \<Rightarrow> EnemyRef list \<times> string set" where
  "clusterInner store maxDistance enemy other s =
     (case s of (cluster, visited) \<Rightarrow>
        if eid (store ! other) \<notin> visited
           \<and> distanceTo (position (store ! enemy)) (position (store ! other)) \<le> maxDistance
        then (cluster @ [other], insert (eid (store ! other)) visited)
        else (cluster, visited))"

definition clusterOuter ::
  "EnemyStore \<Rightarrow> real \<Rightarrow> EnemyRef list \<Rightarrow> EnemyRef
     \<Rightarrow> EnemyRef list list \<times> string set \<Rightarrow> EnemyRef list list \<times> string set" where
  "clusterOuter store maxDistance enemies enemy s =
     (case s of (clusters, visited) \<Rightarrow>
        if eid (store ! enemy) \<in> visited then (clusters, visited)
        else
          let r = fold (clusterInner store maxDistance enemy) enemies
                    ([enemy], insert (eid (store ! enemy)) visited)
          in (clusters @ [fst r], snd r))"

definition clusterEnemies :: "EnemyStore \<Rightarrow> EnemyRef list \<Rightarrow> real \<Rightarrow> EnemyRef list list" where
  "clusterEnemies store enemies maxDistance =
     fst (fold (clusterOuter store maxDistance enemies) enemies ([], {}))"

definition selectFormationType :: "AICoordinator \<Rightarrow> nat \<Rightarrow> FormationType" where
  "selectFormationType c groupSize =
     (if playerThreatLevel c > 70 then scatter
      else if groupSize \<ge> 4 then surround
      else if groupSize = 3 then pincer
      else line)"

text \<open>The decimal digits of an array index.\<close>

fun string_of_nat :: "nat \<Rightarrow> string" where
  "string_of_nat n =
     (if n < 10 then [char_of (48 + n)]
      else string_of_nat (n div 10) @ [char_of (48 + n mod 10)])"

declare string_of_nat.simps [simp del]

text \<open>\<^verbatim>\<open>Map.prototype.set\<close>: an existing key keeps its place, a new key goes last.\<close>

fun Map_set :: "('k \<times> 'v) list \<Rightarrow> 'k \<Rightarrow> 'v \<Rightarrow> ('k \<times> 'v) list" where
  "Map_set [] k v = [(k, v)]"
| "Map_set (p # ps) k v = (if fst p = k then (k, v) # ps else p # Map_set ps k v)"

text \<open>
  The \<^verbatim>\<open>reduce\<close> that picks the leader of a group; it has no initial value and starts
  from the first member. It is called on groups of two or more.
\<close>

definition pickLeader :: "EnemyStore \<Rightarrow> EnemyRef list \<Rightarrow> EnemyRef" where
  "pickLeader store grp =
     foldl (\<lambda>prev current.
              if js_greater (alertLevel (aiState (store ! prev)))
                            (alertLevel (aiState (store ! current)))
              then prev else current)
       (hd grp) (tl grp)"

definition roleFor :: "EnemyStore \<Rightarrow> string \<Rightarrow> nat \<Rightarrow> EnemyRef \<Rightarrow> FormationRole" where
  "roleFor store leaderId i enemy =
     (if eid (store ! enemy) = leaderId then leader_role
      else if i < 2 then flanker
      else support)"

definition assignRole :: "string \<Rightarrow> string \<Rightarrow> nat \<times> EnemyRef \<Rightarrow> EnemyStore \<Rightarrow> EnemyStore" where
  "assignRole leaderId formId ie store =
     (case ie of (i, enemy) \<Rightarrow>
        store[enemy := setFormationRole (roleFor store leaderId i enemy) formId (store ! enemy)])"

text \<open>The template \<^verbatim>\<open>`formation_${index}`\<close>.\<close>

definition formationName :: "nat \<Rightarrow> string" where
  "formationName index = ''formation_'' @ string_of_nat index"

text \<open>The object literal \<^verbatim>\<open>formation\<close>, with the leader picked by the \<^verbatim>\<open>reduce\<close>.\<close>

definition formationOf ::
  "AICoordinator \<Rightarrow> EnemyStore \<Rightarrow> Vector3 \<Rightarrow> int \<Rightarrow> nat \<Rightarrow> EnemyRef list \<Rightarrow> FormationGroup" where
  "formationOf c store playerPosition now index grp =
     \<lparr> fid = formationName index,
       leader = eid (store ! pickLeader store grp),
       members = map (\<lambda>e. eid (store ! e)) grp,
       targetPosition = playerPosition,
       formationType = selectFormationType c (length grp),
       lastUpdate = now \<rparr>"

text \<open>The body of \<^verbatim>\<open>groups.forEach((group, index) => ...)\<close>.\<close>

definition formGroup ::
  "Vector3 \<Rightarrow> int \<Rightarrow> nat \<times> EnemyRef list
     \<Rightarrow> AICoordinator \<times> EnemyStore \<Rightarrow> AICoordinator \<times> EnemyStore" where
  "formGroup playerPosition now ig s =
     (case ig of (index, grp) \<Rightarrow> case s of (c, store) \<Rightarrow>
        if length grp \<ge> 2 then
          let formId = formationName index;
              formation = formationOf c store playerPosition now index grp
          in (c\<lparr> formations := Map_set (formations c) formId formation \<rparr>,
              fold (assignRole (leader formation) formId) (enumerate 0 grp) store)
        else (c, store))"

text \<open>The filter that gives \<^verbatim>\<open>aliveEnemies\<close>.\<close>

definition aliveEnemies :: "EnemyStore \<Rightarrow> EnemyRef list \<Rightarrow> EnemyRef list" where
  "aliveEnemies store enemies =
     filter (\<lambda>e. isAlive (store ! e) \<and> \<not> isBeingThrown (store ! e)) enemies"

text \<open>\<^verbatim>\<open>updateFormations\<close>; \<open>now\<close> is \<^verbatim>\<open>Date.now()\<close>.\<close>

definition updateFormations ::
  "EnemyRef list \<Rightarrow> Vector3 \<Rightarrow> int \<Rightarrow> AICoordinator \<times> EnemyStore \<Rightarrow> AICoordinator \<times> EnemyStore" where
  "updateFormations enemies playerPosition now s =
     (case s of (c, store) \<Rightarrow>
        if now - lastFormationUpdate c < 2000 then (c, store)
        else
          let c1 = c\<lparr> lastFormationUpdate := now, formations := [] \<rparr>;
              groups = clusterEnemies store (aliveEnemies store enemies) 12
          in fold (formGroup playerPosition now) (enumerate 0 groups) (c1, store))"

text \<open>\<^verbatim>\<open>Array.prototype.indexOf\<close>: the first index of the element, or \<open>-1\<close>.\<close>

fun indexOf :: "'a list \<Rightarrow> 'a \<Rightarrow> int" where
  "indexOf [] a = - 1"
| "indexOf (b # bs) a = (if b = a then 0 else if indexOf bs a < 0 then - 1 else indexOf bs a + 1)"

definition getSurroundPosition :: "string \<Rightarrow> FormationGroup \<Rightarrow> Vector3 \<Rightarrow> real \<Rightarrow> Vector3" where
  "getSurroundPosition enemyId formation playerPos distance =
     (let memberIndex = indexOf (members formation) enemyId;
          totalMembers = length (members formation);
          angleStep = (pi * 2) / real totalMembers;
          angle = real_of_int memberIndex * angleStep
      in \<lparr> vx = vx playerPos + cos angle * distance,
           vy = vy playerPos,
           vz = vz playerPos + sin angle * distance \<rparr>)"

definition getPincerPosition :: "FormationRole \<Rightarrow> Vector3 \<Rightarrow> real \<Rightarrow> Vector3" where
  "getPincerPosition role playerPos distance =
     (let angle = (if role = flanker then pi / 3 else - pi / 3)
      in \<lparr> vx = vx playerPos + cos angle * distance,
           vy = vy playerPos,
           vz = vz playerPos + sin angle * distance \<rparr>)"

definition getLinePosition :: "FormationRole \<Rightarrow> Vector3 \<Rightarrow> real \<Rightarrow> real \<Rightarrow> Vector3" where
  "getLinePosition role playerPos baseAngle distance =
     (let offset = (if role = flanker then pi / 6 else 0);
          angle = baseAngle + offset
      in \<lparr> vx = vx playerPos + cos angle * distance,
           vy = vy playerPos,
           vz = vz playerPos + sin angle * distance \<rparr>)"

definition getScatterPosition :: "Vector3 \<Rightarrow> Vector3 \<Rightarrow> real \<Rightarrow> real \<Rightarrow> real \<Rightarrow> Vector3" where
  "getScatterPosition currentPos playerPos distance random2 random3 =
     (let direction = normalize_v (vsub currentPos playerPos);
          randomAngle = (random2 - 0.5) * pi / 2
      in vadd playerPos
           (multiplyScalar (applyAxisAngleY direction randomAngle) (distance + random3 * 5)))"

text \<open>
  \<^verbatim>\<open>getFormationPosition\<close>; \<open>random1\<close>, \<open>random2\<close> and \<open>random3\<close> are the values that the
  calls of \<^verbatim>\<open>Math.random()\<close> return, each at least 0 and below 1.
\<close>

definition getFormationPosition ::
  "AICoordinator \<Rightarrow> real \<Rightarrow> real \<Rightarrow> real \<Rightarrow> string \<Rightarrow> FormationRole \<Rightarrow> string
     \<Rightarrow> Vector3 \<Rightarrow> Vector3 \<Rightarrow> Vector3" where
  "getFormationPosition c random1 random2 random3 enemyId role formId currentPos playerPos =
     (case map_of (formations c) formId of
        None \<Rightarrow> currentPos
      | Some formation \<Rightarrow>
          let angle = atan2 (vz playerPos - vz currentPos) (vx playerPos - vx currentPos);
              distance = 8 + random1 * 4
          in case formationType formation of
               surround \<Rightarrow> getSurroundPosition enemyId formation playerPos distance
             | pincer \<Rightarrow> getPincerPosition role playerPos distance
             | line \<Rightarrow> getLinePosition role playerPos angle distance
             | scatter \<Rightarrow> getScatterPosition currentPos playerPos distance random2 random3)"

section \<open>The path finder\<close>

text \<open>
  A grid cell \<^verbatim>\<open>{x, z}\<close> is a pair of integers. The maps of \<^verbatim>\<open>aStar\<close> are keyed by the
  string \<^verbatim>\<open>`${point.x},${point.z}`\<close>, which determines the cell, so the model keys them
  by the cell. The static field \<^verbatim>\<open>grid\<close> is \<open>None\<close> while it is \<^verbatim>\<open>null\<close>.
\<close>

type_synonym GridPoint = "int \<times> int"
type_synonym Grid = "bool list list"

definition arenaSize :: int where "arenaSize = 50"
definition gridSize :: int where "gridSize = 1"

text \<open>
  \<^verbatim>\<open>initializeGrid\<close>: \<open>None\<close> is a missing level, which leaves the grid as it was; only the
  cells with both coordinates even are probed.
\<close>

definition initializeGrid :: "Level option \<Rightarrow> Grid option \<Rightarrow> Grid option" where
  "initializeGrid level old =
     (case level of
        None \<Rightarrow> old
      | Some lv \<Rightarrow>
          let n = nat (arenaSize div gridSize) in
          Some (map (\<lambda>gx. map (\<lambda>gz.
                  gx mod 2 = 0 \<and> gz mod 2 = 0
                  \<and> collides lv \<lparr> vx = (real gx - real n / 2) * real_of_int gridSize, vy = 1,
                                  vz = (real gz - real n / 2) * real_of_int gridSize \<rparr> 0.5 1)
                [0 ..< n]) [0 ..< n]))"

definition worldToGrid :: "Vector3 \<Rightarrow> GridPoint" where
  "worldToGrid pos =
     (let n = arenaSize div gridSize;
          gx = \<lfloor>(vx pos + real_of_int arenaSize / 2) / real_of_int gridSize\<rfloor>;
          gz = \<lfloor>(vz pos + real_of_int arenaSize / 2) / real_of_int gridSize\<rfloor>
      in (max 0 (min (n - 1) gx), max 0 (min (n - 1) gz)))"

definition gridToWorld :: "GridPoint \<Rightarrow> Vector3" where
  "gridToWorld point =
     \<lparr> vx = (real_of_int (fst point) - real_of_int (arenaSize div gridSize) / 2) * real_of_int gridSize,
       vy = 1,
       vz = (real_of_int (snd point) - real_of_int (arenaSize div gridSize) / 2) * real_of_int gridSize \<rparr>"

text \<open>
  \<^verbatim>\<open>isValidCell\<close> on an initialised grid. The conjunction is evaluated from the left, so
  the rows are read only in range; a cell missing from its row reads as \<^verbatim>\<open>undefined\<close>,
  which is not an obstacle.
\<close>

definition isValidCell :: "Grid \<Rightarrow> GridPoint \<Rightarrow> bool" where
  "isValidCell grid p =
     (case p of (gx, gz) \<Rightarrow>
        gx \<ge> 0 \<and> gx < int (length grid) \<and> gz \<ge> 0 \<and> gz < int (length (grid ! 0))
        \<and> \<not> (nat gz < length (grid ! nat gx) \<and> grid ! nat gx ! nat gz))"

definition heuristic :: "GridPoint \<Rightarrow> GridPoint \<Rightarrow> int" where
  "heuristic a b = \<bar>fst a - fst b\<bar> + \<bar>snd a - snd b\<bar>"

text \<open>
  \<^verbatim>\<open>v || Infinity\<close> and \<^verbatim>\<open>v || 0\<close> for a score read from a map: a missing entry and the
  number 0 are both falsy.
\<close>

datatype Score = Fin int | Infinity

fun or_Infinity :: "int option \<Rightarrow> Score" where
  "or_Infinity None = Infinity"
| "or_Infinity (Some n) = (if n = 0 then Infinity else Fin n)"

fun or_zero :: "int option \<Rightarrow> int" where
  "or_zero None = 0"
| "or_zero (Some n) = n"

fun score_less :: "int \<Rightarrow> Score \<Rightarrow> bool" where
  "score_less a (Fin b) = (a < b)"
| "score_less a Infinity = True"

text \<open>
  The comparator of the sort is \<open>a - b\<close> on scores; \<open>comparator_positive a b\<close> says that it
  is positive, that is, that \<open>a\<close> goes after \<open>b\<close>. \<open>Infinity - Infinity\<close> is \<open>NaN\<close>, which
  the sort reads as 0.
\<close>

fun comparator_positive :: "Score \<Rightarrow> Score \<Rightarrow> bool" where
  "comparator_positive (Fin a) (Fin b) = (a - b > 0)"
| "comparator_positive Infinity (Fin b) = True"
| "comparator_positive (Fin a) Infinity = False"
| "comparator_positive Infinity Infinity = False"

text \<open>\<^verbatim>\<open>Array.prototype.sort\<close> is stable: insertion from the right keeps equal elements in order.\<close>

fun insert_sorted :: "('a \<Rightarrow> 'a \<Rightarrow> bool) \<Rightarrow> 'a \<Rightarrow> 'a list \<Rightarrow> 'a list" where
  "insert_sorted after a [] = [a]"
| "insert_sorted after a (b # bs) =
     (if after a b then b # insert_sorted after a bs else a # b # bs)"

definition array_sort :: "('a \<Rightarrow> 'a \<Rightarrow> bool) \<Rightarrow> 'a list \<Rightarrow> 'a list" where
  "array_sort after xs = foldr (insert_sorted after) xs []"

definition neighbors :: "GridPoint \<Rightarrow> GridPoint list" where
  "neighbors current =
     (case current of (cx, cz) \<Rightarrow> [(cx + 1, cz), (cx - 1, cz), (cx, cz + 1), (cx, cz - 1)])"

record AStarState =
  openSet :: "GridPoint list"
  cameFrom :: "GridPoint \<rightharpoonup> GridPoint"
  gScore :: "GridPoint \<rightharpoonup> int"
  fScore :: "GridPoint \<rightharpoonup> int"

text \<open>The body of \<^verbatim>\<open>for (const neighbor of neighbors)\<close>.\<close>

definition relax :: "Grid \<Rightarrow> GridPoint \<Rightarrow> GridPoint \<Rightarrow> GridPoint \<Rightarrow> AStarState \<Rightarrow> AStarState" where
  "relax grid goal current neighbor st =
     (if \<not> isValidCell grid neighbor then st
      else
        let tentativeGScore = or_zero (gScore st current) + 1 in
        if score_less tentativeGScore (or_Infinity (gScore st neighbor)) then
          st\<lparr> cameFrom := (cameFrom st)(neighbor \<mapsto> current),
              gScore := (gScore st)(neighbor \<mapsto> tentativeGScore),
              fScore := (fScore st)(neighbor \<mapsto> tentativeGScore + heuristic neighbor goal),
              openSet := (if neighbor \<in> set (openSet st) then openSet st
                          else openSet st @ [neighbor]) \<rparr>
        else st)"

text \<open>
  The loop that rebuilds the path: \<^verbatim>\<open>while (cameFrom.has(getKey(curr)))\<close> with
  \<^verbatim>\<open>path.unshift(curr)\<close>. It has no other exit, and the array is a list without a bound
  on its length; \<open>None\<close> is the loop that never ends.
\<close>

partial_function (option) reconstruct ::
  "(GridPoint \<rightharpoonup> GridPoint) \<Rightarrow> GridPoint \<Rightarrow> GridPoint list \<Rightarrow> GridPoint list option" where
  "reconstruct came cur path =
     (case came cur of
        None \<Rightarrow> Some path
      | Some prev \<Rightarrow> reconstruct came prev (prev # path))"

text \<open>
  The main loop of \<^verbatim>\<open>aStar\<close>. It ends with \<open>Found path\<close> at the \<^verbatim>\<open>return path\<close> inside
  the loop and with \<open>Abandoned\<close> when the loop is left, by an empty open set (the sorted
  array is empty exactly when the open set is) or by the \<^verbatim>\<open>break\<close> at more than 200 open
  nodes.
\<close>

datatype SearchResult = Found "GridPoint list" | Abandoned

partial_function (option) aStar_loop :: "Grid \<Rightarrow> GridPoint \<Rightarrow> AStarState \<Rightarrow> SearchResult option" where
  "aStar_loop grid goal st =
     (case array_sort (\<lambda>a b. comparator_positive (or_Infinity (fScore st a)) (or_Infinity (fScore st b)))
             (openSet st) of
        [] \<Rightarrow> Some Abandoned
      | current # rest \<Rightarrow>
          if current = goal then map_option Found (reconstruct (cameFrom st) current [current])
          else
            let st' = fold (relax grid goal current) (neighbors current) (st\<lparr> openSet := rest \<rparr>)
            in if length (openSet st') > 200 then Some Abandoned
               else aStar_loop grid goal st')"

definition aStar_init :: "GridPoint \<Rightarrow> GridPoint \<Rightarrow> AStarState" where
  "aStar_init start goal =
     \<lparr> openSet = [start], cameFrom = Map.empty,
       gScore = [start \<mapsto> 0], fScore = [start \<mapsto> heuristic start goal] \<rparr>"

definition aStar :: "Grid \<Rightarrow> GridPoint \<Rightarrow> GridPoint \<Rightarrow> GridPoint list option" where
  "aStar grid start goal =
     (case aStar_loop grid goal (aStar_init start goal) of
        None \<Rightarrow> None
      | Some (Found path) \<Rightarrow> Some path
      | Some Abandoned \<Rightarrow> Some [goal])"

text \<open>
  \<^verbatim>\<open>findPath\<close> of \<^verbatim>\<open>AIBehavior.ts\<close>, the one the enemies import. The result is \<open>None\<close> when
  the call does not return. Nothing in the \<^verbatim>\<open>try\<close> block raises in this model, so the
  \<^verbatim>\<open>catch\<close> branch, which returns \<^verbatim>\<open>[end]\<close> as well, has no case of its own.
\<close>

definition findPath :: "Grid option \<Rightarrow> Vector3 \<Rightarrow> Vector3 \<Rightarrow> Vector3 list option" where
  "findPath grid start endPos =
     (case grid of
        None \<Rightarrow> Some [endPos]
      | Some g \<Rightarrow>
          let startGrid = worldToGrid start;
              endGrid = worldToGrid endPos
          in if \<not> isValidCell g startGrid \<or> \<not> isValidCell g endGrid then Some [endPos]
             else map_option (map gridToWorld) (aStar g startGrid endGrid))"

text \<open>\<^verbatim>\<open>findPath\<close> of \<^verbatim>\<open>Level.ts\<close>, whose search is commented out.\<close>

definition Level_findPath :: "Grid option \<Rightarrow> Vector3 \<Rightarrow> Vector3 \<Rightarrow> Vector3 list option" where
  "Level_findPath grid start endPos =
     (case grid of
        None \<Rightarrow> Some [endPos]
      | Some g \<Rightarrow> Some [endPos])"

text \<open>The grid of an arena without obstacles, as \<^verbatim>\<open>initializeGrid\<close> builds it.\<close>

definition open_grid :: Grid where
  "open_grid = replicate 50 (replicate 50 False)"

text \<open>The same grid with the cell \<open>(26, 24)\<close> marked as an obstacle.\<close>

definition blocked_grid :: Grid where
  "blocked_grid = open_grid[26 := (replicate 50 False)[24 := True]]"

text \<open>
  \<open>alertsUnset\<close> says that no enemy of a store has a number as its alert level. The
  constructor builds such enemies, and every method that writes the field keeps them so.
\<close>

definition alertsUnset :: "EnemyStore \<Rightarrow> bool" where
  "alertsUnset store = list_all (\<lambda>e. \<not> isNumber (alertLevel (aiState e))) store"

text \<open>
  For the proofs about formations: \<open>clusters_inv\<close> is the invariant of the outer loop of
  \<^verbatim>\<open>clusterEnemies\<close>, and \<open>roles_only\<close> relates two stores that differ at most in the roles
  and formation ids of their enemies.
\<close>

definition clusters_inv :: "EnemyStore \<Rightarrow> EnemyRef list \<Rightarrow> EnemyRef list list \<times> string set \<Rightarrow> bool" where
  "clusters_inv store enemies s =
     (distinct (map (\<lambda>r. eid (store ! r)) (concat (fst s)))
      \<and> (\<lambda>r. eid (store ! r)) ` set (concat (fst s)) \<subseteq> snd s
      \<and> set (concat (fst s)) \<subseteq> set enemies)"

definition roles_only :: "EnemyStore \<Rightarrow> EnemyStore \<Rightarrow> bool" where
  "roles_only st st' =
     (length st' = length st
      \<and> (\<forall>k. eid (st' ! k) = eid (st ! k)
             \<and> alertLevel (aiState (st' ! k)) = alertLevel (aiState (st ! k))))"

text \<open>
  Three enemies for the examples of formations, as the constructor builds them: the second
  and the third are within 12 units of the first. A fourth one stands far away.
\<close>

definition trio :: EnemyStore where
  "trio = [new_Enemy ''enemy_a'' 0 \<lparr> vx = 0, vy = 0, vz = 0 \<rparr> 1 normal,
           new_Enemy ''enemy_b'' 0 \<lparr> vx = 3, vy = 0, vz = 0 \<rparr> 1 normal,
           new_Enemy ''enemy_c'' 0 \<lparr> vx = 0, vy = 0, vz = 4 \<rparr> 1 normal]"

definition quartet :: EnemyStore where
  "quartet = trio @ [new_Enemy ''enemy_d'' 0 \<lparr> vx = 20, vy = 0, vz = 20 \<rparr> 1 normal]"

definition player_origin :: Vector3 where
  "player_origin = \<lparr> vx = 1, vy = 0, vz = 1 \<rparr>"

text \<open>A coordinator that holds one surround formation of five members.\<close>

definition ring_coordinator :: AICoordinator where
  "ring_coordinator =
     new_AICoordinator
       \<lparr> formations :=
           [(formationName 0,
             \<lparr> fid = formationName 0, leader = ''e0'',
               members = [''e0'', ''e1'', ''e2'', ''e3'', ''e4''],
               targetPosition = player_origin, formationType = surround, lastUpdate = 0 \<rparr>)] \<rparr>"

section \<open>Threat level bounds\<close>

lemma threatStep_bounds:
  assumes "0 \<le> playerThreatLevel c" and "playerThreatLevel c \<le> 100"
  shows "0 \<le> playerThreatLevel (threatStep c ev) \<and> playerThreatLevel (threatStep c ev) \<le> 100"
proof (cases ev)
  case (Call a)
  with assms show ?thesis
    by (cases a) (simp_all add: updatePlayerThreatLevel_def)
next
  case TimerFires
  with assms show ?thesis by (simp add: decayCallback_def)
next
  case Cleanup
  then show ?thesis by (simp add: cleanup_def)
qed

lemma threatRun_bounds:
  assumes "0 \<le> playerThreatLevel c" and "playerThreatLevel c \<le> 100"
  shows "0 \<le> playerThreatLevel (threatRun evs c) \<and> playerThreatLevel (threatRun evs c) \<le> 100"
  using assms unfolding threatRun_def
proof (induction evs arbitrary: c)
  case Nil
  then show ?case by simp
next
  case (Cons ev evs)
  from threatStep_bounds [OF Cons.prems]
  have "0 \<le> playerThreatLevel (threatStep c ev)" and "playerThreatLevel (threatStep c ev) \<le> 100"
    by simp_all
  from Cons.IH [OF this] show ?case by simp
qed

lemma kill_run:
  "playerThreatLevel (threatRun (replicate n (Call kill)) c)
     = (if n = 0 then playerThreatLevel c else min 100 (playerThreatLevel c + 15 * int n))"
  unfolding threatRun_def
proof (induction n arbitrary: c)
  case 0
  show ?case by simp
next
  case (Suc n)
  show ?case
    by (simp add: Suc.IH updatePlayerThreatLevel_def min_def)
qed

text \<open>
  C6. From a fresh coordinator, after any sequence of threat updates, timer callbacks and
  cleanups, the threat level lies between 0 and 100; and after \<open>n\<close> kills in a row with no
  callback in between it is \<open>min 100 (15 * n)\<close>, which is 100 from the seventh kill on.
\<close>

theorem threat_level_bounded:
  "0 \<le> playerThreatLevel (threatRun evs new_AICoordinator)
   \<and> playerThreatLevel (threatRun evs new_AICoordinator) \<le> 100
   \<and> playerThreatLevel (threatRun (replicate n (Call kill)) new_AICoordinator) = min 100 (15 * int n)"
proof -
  have b: "0 \<le> playerThreatLevel new_AICoordinator" "playerThreatLevel new_AICoordinator \<le> 100"
    by (simp_all add: new_AICoordinator_def)
  have k: "playerThreatLevel (threatRun (replicate n (Call kill)) new_AICoordinator) = min 100 (15 * int n)"
    by (simp add: kill_run new_AICoordinator_def)
  from threatRun_bounds [OF b] k show ?thesis by simp
qed

section \<open>Path finder: the loop that rebuilds the path\<close>

lemma reconstruct_cycle_aux:
  assumes "reconstruct came cur path = Some r"
  shows "cur \<in> S \<longrightarrow> (\<forall>a\<in>S. \<exists>b\<in>S. came a = Some b) \<longrightarrow> False"
proof (rule reconstruct.raw_induct
    [where P = "\<lambda>came cur path r. cur \<in> S \<longrightarrow> (\<forall>a\<in>S. \<exists>b\<in>S. came a = Some b) \<longrightarrow> False",
     OF _ assms])
  fix rec came cur path r
  assume IH: "\<And>came cur path r. rec came cur path = Some r \<Longrightarrow>
                cur \<in> S \<longrightarrow> (\<forall>a\<in>S. \<exists>b\<in>S. came a = Some b) \<longrightarrow> False"
    and eq: "(case came cur of None \<Rightarrow> Some path | Some prev \<Rightarrow> rec came prev (prev # path)) = Some r"
  show "cur \<in> S \<longrightarrow> (\<forall>a\<in>S. \<exists>b\<in>S. came a = Some b) \<longrightarrow> False"
  proof (intro impI)
    assume c: "cur \<in> S" and cl: "\<forall>a\<in>S. \<exists>b\<in>S. came a = Some b"
    then obtain b where b: "b \<in> S" "came cur = Some b" by blast
    with eq have "rec came b (b # path) = Some r" by simp
    from IH [OF this] b(1) cl show False by blast
  qed
qed

lemma reconstruct_cycle:
  assumes "cur \<in> S" and "\<forall>a\<in>S. \<exists>b\<in>S. came a = Some b"
  shows "reconstruct came cur path = None"
proof (cases "reconstruct came cur path")
  case None then show ?thesis .
next
  case (Some r)
  from reconstruct_cycle_aux [OF Some, of S] assms show ?thesis by blast
qed

section \<open>Path finder: results\<close>

lemmas path_eval =
  findPath_def worldToGrid_def gridToWorld_def arenaSize_def gridSize_def isValidCell_def
  open_grid_def aStar_def aStar_init_def heuristic_def neighbors_def relax_def array_sort_def Let_def

text \<open>
  C1. When the grid is not initialised, \<^verbatim>\<open>findPath\<close> returns the list \<^verbatim>\<open>[end]\<close>, in both
  files; and when the cell of the start or of the end is not valid on an initialised grid, it
  returns \<^verbatim>\<open>[end]\<close> as well. An exception is not among the outcomes: everything after the
  test of the grid runs inside the \<^verbatim>\<open>try\<close> block, whose \<^verbatim>\<open>catch\<close> returns \<^verbatim>\<open>[end]\<close>.
\<close>

theorem findPath_fallback:
  "findPath None start endPos = Some [endPos]
   \<and> Level_findPath None start endPos = Some [endPos]
   \<and> (\<not> isValidCell g (worldToGrid start) \<or> \<not> isValidCell g (worldToGrid endPos) \<longrightarrow>
        findPath (Some g) start endPos = Some [endPos]
        \<and> Level_findPath (Some g) start endPos = Some [endPos])"
  by (simp add: findPath_def Level_findPath_def Let_def)

theorem findPath_fallback_witness:
  "\<not> isValidCell blocked_grid (worldToGrid \<lparr>vx = 1.5, vy = 0, vz = - 0.5\<rparr>)
   \<and> findPath (Some blocked_grid) \<lparr>vx = 1.5, vy = 0, vz = - 0.5\<rparr> \<lparr>vx = 3, vy = 0, vz = 3\<rparr>
       = Some [\<lparr>vx = 3, vy = 0, vz = 3\<rparr>]
   \<and> findPath None \<lparr>vx = 1.5, vy = 0, vz = - 0.5\<rparr> \<lparr>vx = 3, vy = 0, vz = 3\<rparr>
       = Some [\<lparr>vx = 3, vy = 0, vz = 3\<rparr>]"
proof -
  have h: "\<not> isValidCell blocked_grid (worldToGrid \<lparr>vx = 1.5, vy = 0, vz = - 0.5\<rparr>)"
    by (simp add: path_eval blocked_grid_def)
  with findPath_fallback [of "\<lparr>vx = 1.5, vy = 0, vz = - 0.5\<rparr>" "\<lparr>vx = 3, vy = 0, vz = 3\<rparr>" blocked_grid]
  show ?thesis by blast
qed

lemma search_one_step:
  "aStar_loop open_grid (26, 25) (aStar_init (25, 25) (26, 25)) = Some (Found [(25, 25), (26, 25)])"
  apply (subst aStar_loop.simps)
  apply (simp add: path_eval)
  apply (subst aStar_loop.simps)
  apply (simp add: path_eval)
  apply (subst reconstruct.simps)
  apply simp
  apply (subst reconstruct.simps)
  apply simp
  done

lemma search_two_steps:
  "aStar_loop open_grid (27, 25) (aStar_init (25, 25) (27, 25)) = None"
  apply (subst aStar_loop.simps)
  apply (simp add: path_eval)
  apply (subst aStar_loop.simps)
  apply (simp add: path_eval)
  apply (subst aStar_loop.simps)
  apply (simp add: path_eval)
  apply (rule reconstruct_cycle [where S = "{(27, 25), (26, 25), (25, 25)}"])
   apply simp
  apply simp
  done

lemma search_corner:
  "aStar_loop open_grid (1, 1) (aStar_init (0, 0) (1, 1)) = None"
  apply (subst aStar_loop.simps)
  apply (simp add: path_eval)
  apply (subst aStar_loop.simps)
  apply (simp add: path_eval)
  apply (subst aStar_loop.simps)
  apply (simp add: path_eval)
  apply (subst aStar_loop.simps)
  apply (simp add: path_eval)
  apply (rule reconstruct_cycle [where S = "{(1, 1), (1, 0), (0, 0)}"])
   apply simp
  apply simp
  done

text \<open>
  C2. On the grid without obstacles, from the cell \<open>(25, 25)\<close> to the cell \<open>(27, 25)\<close>, at
  Manhattan distance 2, \<^verbatim>\<open>findPath\<close> does not return: when the first neighbour of the start
  is expanded, the start itself is entered into \<^verbatim>\<open>cameFrom\<close>, because its score 0 reads as
  \<^verbatim>\<open>Infinity\<close> in \<^verbatim>\<open>gScore.get(neighborKey) || Infinity\<close>, and the loop that rebuilds the path
  then runs around the two cells for ever.
\<close>

theorem findPath_two_steps_no_result:
  "findPath (Some open_grid) \<lparr>vx = 0, vy = 0, vz = 0\<rparr> \<lparr>vx = 2, vy = 0, vz = 0\<rparr> = None"
  using search_two_steps by (simp add: path_eval)

theorem findPath_two_steps_no_result_witness:
  "isValidCell open_grid (worldToGrid \<lparr>vx = 0, vy = 0, vz = 0\<rparr>)
   \<and> isValidCell open_grid (worldToGrid \<lparr>vx = 2, vy = 0, vz = 0\<rparr>)
   \<and> heuristic (worldToGrid \<lparr>vx = 0, vy = 0, vz = 0\<rparr>) (worldToGrid \<lparr>vx = 2, vy = 0, vz = 0\<rparr>) = 2
   \<and> findPath (Some open_grid) \<lparr>vx = 0, vy = 0, vz = 0\<rparr> \<lparr>vx = 2, vy = 0, vz = 0\<rparr> = None"
proof -
  have "isValidCell open_grid (worldToGrid \<lparr>vx = 0, vy = 0, vz = 0\<rparr>)
   \<and> isValidCell open_grid (worldToGrid \<lparr>vx = 2, vy = 0, vz = 0\<rparr>)
   \<and> heuristic (worldToGrid \<lparr>vx = 0, vy = 0, vz = 0\<rparr>) (worldToGrid \<lparr>vx = 2, vy = 0, vz = 0\<rparr>) = 2"
    by (simp add: path_eval)
  with findPath_two_steps_no_result show ?thesis by simp
qed

text \<open>
  C7. \<^verbatim>\<open>findPath\<close> does not end on every input: on the grid without obstacles, from the
  corner cell \<open>(0, 0)\<close> to the cell \<open>(1, 1)\<close> the search reaches the goal with three open nodes
  left, far below the cap of 200, and the call does not return.
\<close>

theorem findPath_corner_no_result:
  "findPath (Some open_grid) \<lparr>vx = - 25, vy = 0, vz = - 25\<rparr> \<lparr>vx = - 24, vy = 0, vz = - 24\<rparr> = None"
  using search_corner by (simp add: path_eval)

theorem findPath_corner_no_result_witness:
  "isValidCell open_grid (worldToGrid \<lparr>vx = - 25, vy = 0, vz = - 25\<rparr>)
   \<and> isValidCell open_grid (worldToGrid \<lparr>vx = - 24, vy = 0, vz = - 24\<rparr>)
   \<and> findPath (Some open_grid) \<lparr>vx = - 25, vy = 0, vz = - 25\<rparr> \<lparr>vx = - 24, vy = 0, vz = - 24\<rparr> = None"
proof -
  have "isValidCell open_grid (worldToGrid \<lparr>vx = - 25, vy = 0, vz = - 25\<rparr>)
   \<and> isValidCell open_grid (worldToGrid \<lparr>vx = - 24, vy = 0, vz = - 24\<rparr>)"
    by (simp add: path_eval)
  with findPath_corner_no_result show ?thesis by simp
qed

text \<open>
  C4, as the claim states it, fails: from the cell \<open>(25, 25)\<close> to its neighbour \<open>(26, 25)\<close>
  the search succeeds, and the first of the two waypoints returned is the point of the start
  cell. That point is the corner \<open>(0, 1, 0)\<close> of the cell, whose centre is at \<open>0.5\<close> on both
  axes.
\<close>

theorem findPath_keeps_start:
  "aStar_loop open_grid (worldToGrid \<lparr>vx = 1, vy = 0, vz = 0\<rparr>)
       (aStar_init (worldToGrid \<lparr>vx = 0, vy = 0, vz = 0\<rparr>) (worldToGrid \<lparr>vx = 1, vy = 0, vz = 0\<rparr>))
     = Some (Found [(25, 25), (26, 25)])
   \<and> findPath (Some open_grid) \<lparr>vx = 0, vy = 0, vz = 0\<rparr> \<lparr>vx = 1, vy = 0, vz = 0\<rparr>
     = Some [\<lparr>vx = 0, vy = 1, vz = 0\<rparr>, \<lparr>vx = 1, vy = 1, vz = 0\<rparr>]
   \<and> gridToWorld (worldToGrid \<lparr>vx = 0, vy = 0, vz = 0\<rparr>) = \<lparr>vx = 0, vy = 1, vz = 0\<rparr>"
  using search_one_step by (simp add: path_eval)

lemmas step_eval =
  aStar_init_def heuristic_def neighbors_def relax_def array_sort_def Let_def

lemma search_same_cell:
  "aStar_loop g s (aStar_init s s) = Some (Found [s])"
  apply (subst aStar_loop.simps)
  apply (simp add: step_eval)
  apply (subst reconstruct.simps)
  apply simp
  done

lemma search_neighbour_east:
  assumes "isValidCell g (a + 1, b)"
  shows "aStar_loop g (a + 1, b) (aStar_init (a, b) (a + 1, b)) = Some (Found [(a, b), (a + 1, b)])"
proof -
  have "aStar_loop g (a + 1, b) (aStar_init (a, b) (a + 1, b)) = Some (Found [(a, b), (a + 1, b)])"
    if "isValidCell g (a - 1, b) = v1" "isValidCell g (a, b + 1) = v2" "isValidCell g (a, b - 1) = v3"
    for v1 v2 v3
    apply (insert that assms)
    apply (subst aStar_loop.simps)
    apply (cases v1; cases v2; cases v3; simp add: step_eval; subst aStar_loop.simps;
           simp add: step_eval; subst reconstruct.simps; simp; subst reconstruct.simps; simp)
    done
  then show ?thesis by blast
qed

lemma search_neighbour_west:
  assumes "isValidCell g (a - 1, b)"
  shows "aStar_loop g (a - 1, b) (aStar_init (a, b) (a - 1, b)) = Some (Found [(a, b), (a - 1, b)])"
proof -
  have "aStar_loop g (a - 1, b) (aStar_init (a, b) (a - 1, b)) = Some (Found [(a, b), (a - 1, b)])"
    if "isValidCell g (a + 1, b) = v1" "isValidCell g (a, b + 1) = v2" "isValidCell g (a, b - 1) = v3"
    for v1 v2 v3
    apply (insert that assms)
    apply (subst aStar_loop.simps)
    apply (cases v1; cases v2; cases v3; simp add: step_eval; subst aStar_loop.simps;
           simp add: step_eval; subst reconstruct.simps; simp; subst reconstruct.simps; simp)
    done
  then show ?thesis by blast
qed

lemma search_neighbour_north:
  assumes "isValidCell g (a, b + 1)"
  shows "aStar_loop g (a, b + 1) (aStar_init (a, b) (a, b + 1)) = Some (Found [(a, b), (a, b + 1)])"
proof -
  have "aStar_loop g (a, b + 1) (aStar_init (a, b) (a, b + 1)) = Some (Found [(a, b), (a, b + 1)])"
    if "isValidCell g (a + 1, b) = v1" "isValidCell g (a - 1, b) = v2" "isValidCell g (a, b - 1) = v3"
    for v1 v2 v3
    apply (insert that assms)
    apply (subst aStar_loop.simps)
    apply (cases v1; cases v2; cases v3; simp add: step_eval; subst aStar_loop.simps;
           simp add: step_eval; subst reconstruct.simps; simp; subst reconstruct.simps; simp)
    done
  then show ?thesis by blast
qed

lemma search_neighbour_south:
  assumes "isValidCell g (a, b - 1)"
  shows "aStar_loop g (a, b - 1) (aStar_init (a, b) (a, b - 1)) = Some (Found [(a, b), (a, b - 1)])"
proof -
  have "aStar_loop g (a, b - 1) (aStar_init (a, b) (a, b - 1)) = Some (Found [(a, b), (a, b - 1)])"
    if "isValidCell g (a + 1, b) = v1" "isValidCell g (a - 1, b) = v2" "isValidCell g (a, b + 1) = v3"
    for v1 v2 v3
    apply (insert that assms)
    apply (subst aStar_loop.simps)
    apply (cases v1; cases v2; cases v3; simp add: step_eval; subst aStar_loop.simps;
           simp add: step_eval; subst reconstruct.simps; simp; subst reconstruct.simps; simp)
    done
  then show ?thesis by blast
qed

lemma search_neighbour:
  assumes "isValidCell g e" and "e \<in> set (neighbors s)"
  shows "aStar_loop g e (aStar_init s e) = Some (Found [s, e])"
proof -
  obtain a b where s: "s = (a, b)" by (cases s)
  from assms(2) have "e = (a + 1, b) \<or> e = (a - 1, b) \<or> e = (a, b + 1) \<or> e = (a, b - 1)"
    by (simp add: neighbors_def s)
  with assms(1) show ?thesis
    unfolding s
    using search_neighbour_east [of g a b] search_neighbour_west [of g a b]
      search_neighbour_north [of g a b] search_neighbour_south [of g a b]
    by blast
qed

text \<open>
  C4, amended. When the cell of the end is the cell of the start or one of its four
  neighbours, and both cells are valid, the grid search succeeds and \<^verbatim>\<open>findPath\<close> returns
  the cells of the path, each converted by \<^verbatim>\<open>gridToWorld\<close> to the corner
  \<open>(x - 25, 1, z - 25)\<close> of the cell, in order from start to end: the point of the start cell
  comes first, and the point of the end cell, when it is another cell, comes last.
\<close>

theorem findPath_short_search:
  assumes "isValidCell g (worldToGrid start)" and "isValidCell g (worldToGrid endPos)"
  shows "(worldToGrid endPos = worldToGrid start \<longrightarrow>
            findPath (Some g) start endPos = Some [gridToWorld (worldToGrid start)])
         \<and> (worldToGrid endPos \<in> set (neighbors (worldToGrid start)) \<longrightarrow>
              findPath (Some g) start endPos
                = Some [gridToWorld (worldToGrid start), gridToWorld (worldToGrid endPos)])
         \<and> (\<forall>c. gridToWorld c
               = \<lparr> vx = real_of_int (fst c) - 25, vy = 1, vz = real_of_int (snd c) - 25 \<rparr>)"
proof (intro conjI impI)
  assume "worldToGrid endPos = worldToGrid start"
  with assms search_same_cell [of g "worldToGrid start"]
  show "findPath (Some g) start endPos = Some [gridToWorld (worldToGrid start)]"
    by (simp add: findPath_def aStar_def Let_def)
next
  assume "worldToGrid endPos \<in> set (neighbors (worldToGrid start))"
  from search_neighbour [OF assms(2) this] assms
  show "findPath (Some g) start endPos
          = Some [gridToWorld (worldToGrid start), gridToWorld (worldToGrid endPos)]"
    by (simp add: findPath_def aStar_def Let_def)
next
  show "\<forall>c. gridToWorld c
               = \<lparr> vx = real_of_int (fst c) - 25, vy = 1, vz = real_of_int (snd c) - 25 \<rparr>"
    by (simp add: gridToWorld_def arenaSize_def gridSize_def)
qed

theorem findPath_short_search_witness:
  "isValidCell open_grid (worldToGrid \<lparr>vx = 0, vy = 0, vz = 0\<rparr>)
   \<and> isValidCell open_grid (worldToGrid \<lparr>vx = 1, vy = 0, vz = 0\<rparr>)
   \<and> worldToGrid \<lparr>vx = 1, vy = 0, vz = 0\<rparr> \<in> set (neighbors (worldToGrid \<lparr>vx = 0, vy = 0, vz = 0\<rparr>))
   \<and> findPath (Some open_grid) \<lparr>vx = 0, vy = 0, vz = 0\<rparr> \<lparr>vx = 1, vy = 0, vz = 0\<rparr>
       = Some [\<lparr>vx = 0, vy = 1, vz = 0\<rparr>, \<lparr>vx = 1, vy = 1, vz = 0\<rparr>]
   \<and> findPath (Some open_grid) \<lparr>vx = 0, vy = 0, vz = 0\<rparr> \<lparr>vx = 0.5, vy = 0, vz = 0.5\<rparr>
       = Some [\<lparr>vx = 0, vy = 1, vz = 0\<rparr>]"
proof -
  have v1: "isValidCell open_grid (worldToGrid \<lparr>vx = 0, vy = 0, vz = 0\<rparr>)"
    by (simp add: path_eval)
  have v2: "isValidCell open_grid (worldToGrid \<lparr>vx = 1, vy = 0, vz = 0\<rparr>)"
    by (simp add: path_eval)
  have v3: "isValidCell open_grid (worldToGrid \<lparr>vx = 0.5, vy = 0, vz = 0.5\<rparr>)"
    by (simp add: path_eval)
  have n: "worldToGrid \<lparr>vx = 1, vy = 0, vz = 0\<rparr> \<in> set (neighbors (worldToGrid \<lparr>vx = 0, vy = 0, vz = 0\<rparr>))"
    by (simp add: worldToGrid_def arenaSize_def gridSize_def neighbors_def)
  have e: "worldToGrid \<lparr>vx = 0.5, vy = 0, vz = 0.5\<rparr> = worldToGrid \<lparr>vx = 0, vy = 0, vz = 0\<rparr>"
    by (simp add: worldToGrid_def arenaSize_def gridSize_def)
  have w: "gridToWorld (worldToGrid \<lparr>vx = 0, vy = 0, vz = 0\<rparr>) = \<lparr>vx = 0, vy = 1, vz = 0\<rparr>"
    "gridToWorld (worldToGrid \<lparr>vx = 1, vy = 0, vz = 0\<rparr>) = \<lparr>vx = 1, vy = 1, vz = 0\<rparr>"
    by (simp_all add: worldToGrid_def gridToWorld_def arenaSize_def gridSize_def)
  from findPath_short_search [OF v1 v2] n
  have p1: "findPath (Some open_grid) \<lparr>vx = 0, vy = 0, vz = 0\<rparr> \<lparr>vx = 1, vy = 0, vz = 0\<rparr>
              = Some [gridToWorld (worldToGrid \<lparr>vx = 0, vy = 0, vz = 0\<rparr>),
                      gridToWorld (worldToGrid \<lparr>vx = 1, vy = 0, vz = 0\<rparr>)]"
    by blast
  from findPath_short_search [OF v1 v3] e
  have p2: "findPath (Some open_grid) \<lparr>vx = 0, vy = 0, vz = 0\<rparr> \<lparr>vx = 0.5, vy = 0, vz = 0.5\<rparr>
              = Some [gridToWorld (worldToGrid \<lparr>vx = 0, vy = 0, vz = 0\<rparr>)]"
    by blast
  from p1 p2 n v1 v2 show ?thesis by (simp only: w)
qed

section \<open>Alerts and damage\<close>


lemma distanceTo_le: "0 \<le> r \<Longrightarrow> (distanceTo a b \<le> r) = (distanceToSquared a b \<le> r * r)"
proof -
  assume r: "0 \<le> r"
  then have "sqrt (r * r) = r" by simp
  then have "(distanceTo a b \<le> r) = (sqrt (distanceToSquared a b) \<le> sqrt (r * r))"
    by (simp add: distanceTo_def)
  also have "\<dots> = (distanceToSquared a b \<le> r * r)" by (rule real_sqrt_le_iff)
  finally show ?thesis .
qed


lemma not_number_plus: "\<not> isNumber (Math_min k (js_plus a d))" if "\<not> isNumber a"
  using that by (cases a) simp_all

lemma not_number_minus: "\<not> isNumber (Math_max k (js_plus a d))" if "\<not> isNumber a"
  using that by (cases a) simp_all


lemma alertNearbyEnemies_nobody: "alertNearbyEnemies alerterId pos [] store = store"
  by (simp add: alertNearbyEnemies_def)

lemma new_Enemy_unset: "alertLevel (aiState (new_Enemy ident random pos difficulty type)) = Undefined"
  by (simp add: new_Enemy_def Let_def)

lemma receiveAlert_unset:
  "\<not> isNumber (alertLevel (aiState e)) \<Longrightarrow> \<not> isNumber (alertLevel (aiState (receiveAlert a p e)))"
  by (simp add: receiveAlert_def not_number_plus)

lemma alertsUnset_update:
  assumes "alertsUnset store" and "\<not> isNumber (alertLevel (aiState e))"
  shows "alertsUnset (store[i := e])"
  using assms set_update_subset_insert [of store i e]
  by (auto simp: alertsUnset_def list_all_iff)

lemma alertsUnset_nth:
  "alertsUnset store \<Longrightarrow> i < length store \<Longrightarrow> \<not> isNumber (alertLevel (aiState (store ! i)))"
  by (simp add: alertsUnset_def list_all_length)

lemma update_beyond: "\<not> i < length xs \<Longrightarrow> xs[i := a] = xs"
  by (simp add: list_update_beyond)

lemma alertOne_unset: "alertsUnset store \<Longrightarrow> alertsUnset (alertOne a p r store)"
proof (cases "r < length store")
  case True
  assume u: "alertsUnset store"
  from receiveAlert_unset [OF alertsUnset_nth [OF u True]] u
  show ?thesis by (simp add: alertOne_def alertsUnset_update)
next
  case False
  assume "alertsUnset store"
  with False show ?thesis by (simp add: alertOne_def update_beyond)
qed

lemma alertNearbyEnemies_unset:
  "alertsUnset store \<Longrightarrow> alertsUnset (alertNearbyEnemies a p rs store)"
  unfolding alertNearbyEnemies_def
  by (induction rs arbitrary: store) (simp_all add: alertOne_unset)

lemma updateAwareness_unset:
  assumes "alertsUnset store"
  shows "alertsUnset (updateAwareness self pp level now store)"
proof (cases "self < length store")
  case True
  note n = alertsUnset_nth [OF assms True]
  show ?thesis
    unfolding updateAwareness_def Let_def
    using assms n
    by (auto intro!: alertsUnset_update simp: alertNearbyEnemies_nobody not_number_plus not_number_minus)
next
  case False
  with assms show ?thesis
    by (simp add: updateAwareness_def Let_def alertNearbyEnemies_nobody update_beyond)
qed



lemma takeDamage_threat:
  "snd (takeDamage self amount fromFront now (store, c)) = updatePlayerThreatLevel damage c"
  by (simp add: takeDamage_def Let_def)

text \<open>
  C10. Every call of \<^verbatim>\<open>takeDamage\<close> raises the threat level by 5, up to 100, whatever the
  amount, the direction and the enemy; a call of \<^verbatim>\<open>handleThrowPhysics\<close> in which the thrown
  enemy lands does so through its \<^verbatim>\<open>takeDamage(30)\<close>, and a call in which it does not land
  leaves the coordinator as it was.
\<close>

theorem takeDamage_raises_threat:
  "playerThreatLevel (snd (takeDamage self amount fromFront now (store, c)))
     = min 100 (playerThreatLevel c + 5)
   \<and> (lands level rnd1 (store ! self) \<longrightarrow>
        playerThreatLevel (snd (handleThrowPhysics self level rnd1 rnd2 now (store, c)))
          = min 100 (playerThreatLevel c + 5))
   \<and> (\<not> lands level rnd1 (store ! self) \<longrightarrow>
        snd (handleThrowPhysics self level rnd1 rnd2 now (store, c)) = c)"
  by (simp add: takeDamage_threat handleThrowPhysics_def lands_def Let_def updatePlayerThreatLevel_def)

theorem takeDamage_raises_threat_witness:
  "lands None (0, 0) falling
   \<and> playerThreatLevel (snd (handleThrowPhysics 0 None (0, 0) (0, 0) 1000 ([falling], new_AICoordinator))) = 5
   \<and> playerThreatLevel (snd (takeDamage 0 30 True 1000 ([falling], new_AICoordinator))) = 5"
proof -
  have l: "lands None (0, 0) ([falling] ! 0)"
    by (simp add: lands_def throwStuck_def throwMove_def throwCollide_def collides_def falling_def
        new_Enemy_def multiplyScalar_def vadd_def Let_def)
  from takeDamage_raises_threat [of 0 30 True 1000 "[falling]" new_AICoordinator None "(0, 0)" "(0, 0)"] l
  show ?thesis by (simp add: new_AICoordinator_def)
qed


lemma explode_enemy_alert: "alertLevel (aiState (explode_enemy e)) = alertLevel (aiState e)"
  by (simp add: explode_enemy_def)

lemma findSafeLandingPosition_alert:
  "alertLevel (aiState (findSafeLandingPosition level rnd e)) = alertLevel (aiState e)"
  by (simp add: findSafeLandingPosition_def Let_def split: option.splits)

lemma takeDamage_unset:
  assumes "alertsUnset store"
  shows "alertsUnset (fst (takeDamage self amount fromFront now (store, c)))"
proof (cases "self < length store")
  case True
  note n = alertsUnset_nth [OF assms True]
  show ?thesis
    unfolding takeDamage_def Let_def
    using assms n True
    by (auto intro!: alertsUnset_update
        simp: alertNearbyEnemies_nobody not_number_plus explode_enemy_alert)
next
  case False
  with assms show ?thesis
    by (simp add: takeDamage_def Let_def alertNearbyEnemies_nobody update_beyond)
qed

lemma handleThrowPhysics_unset:
  assumes "alertsUnset store"
  shows "alertsUnset (fst (handleThrowPhysics self level rnd1 rnd2 now (store, c)))"
proof (cases "self < length store")
  case True
  note n = alertsUnset_nth [OF assms True]
  have m: "alertLevel (aiState (throwMove e)) = alertLevel (aiState e)" for e
    by (simp add: throwMove_def Let_def)
  have cl: "alertLevel (aiState (throwCollide level rnd1 p e)) = alertLevel (aiState e)" for p e
    by (simp add: throwCollide_def Let_def findSafeLandingPosition_alert)
  have ld: "alertLevel (aiState (throwLand level rnd2 e)) = alertLevel (aiState e)" for e
    by (simp add: throwLand_def Let_def findSafeLandingPosition_alert)
  show ?thesis
    unfolding handleThrowPhysics_def Let_def
    using assms n
    by (auto intro!: alertsUnset_update takeDamage_unset
        simp: m cl ld findSafeLandingPosition_alert)
next
  case False
  have "alertsUnset (fst (takeDamage self 30 True now (store, c)))"
    by (rule takeDamage_unset [OF assms])
  with False assms show ?thesis
    by (simp add: handleThrowPhysics_def Let_def update_beyond)
qed

section \<open>Clusters\<close>

lemma clusterInner_fold:
  "\<exists>added. fst (fold (clusterInner store d enemy) others (cluster, visited)) = cluster @ added
     \<and> snd (fold (clusterInner store d enemy) others (cluster, visited))
         = visited \<union> (\<lambda>r. eid (store ! r)) ` set added
     \<and> distinct (map (\<lambda>r. eid (store ! r)) added)
     \<and> (\<lambda>r. eid (store ! r)) ` set added \<inter> visited = {}
     \<and> set added \<subseteq> set others"
proof (induction others arbitrary: cluster visited)
  case Nil
  show ?case by simp
next
  case (Cons other others)
  show ?case
  proof (cases "eid (store ! other) \<notin> visited
           \<and> distanceTo (position (store ! enemy)) (position (store ! other)) \<le> d")
    case True
    from Cons.IH [of "cluster @ [other]" "insert (eid (store ! other)) visited"]
    obtain added where a:
      "fst (fold (clusterInner store d enemy) others (cluster @ [other], insert (eid (store ! other)) visited))
         = (cluster @ [other]) @ added"
      "snd (fold (clusterInner store d enemy) others (cluster @ [other], insert (eid (store ! other)) visited))
         = insert (eid (store ! other)) visited \<union> (\<lambda>r. eid (store ! r)) ` set added"
      "distinct (map (\<lambda>r. eid (store ! r)) added)"
      "(\<lambda>r. eid (store ! r)) ` set added \<inter> insert (eid (store ! other)) visited = {}"
      "set added \<subseteq> set others"
      by blast
    have step: "clusterInner store d enemy other (cluster, visited)
                  = (cluster @ [other], insert (eid (store ! other)) visited)"
      using True by (simp add: clusterInner_def)
    show ?thesis
      apply (rule exI [of _ "other # added"])
      using a True by (auto simp: step)
  next
    case False
    then have step: "clusterInner store d enemy other (cluster, visited) = (cluster, visited)"
      by (auto simp: clusterInner_def)
    from Cons.IH [of cluster visited] obtain added where a:
      "fst (fold (clusterInner store d enemy) others (cluster, visited)) = cluster @ added"
      "snd (fold (clusterInner store d enemy) others (cluster, visited))
         = visited \<union> (\<lambda>r. eid (store ! r)) ` set added"
      "distinct (map (\<lambda>r. eid (store ! r)) added)"
      "(\<lambda>r. eid (store ! r)) ` set added \<inter> visited = {}"
      "set added \<subseteq> set others"
      by blast
    show ?thesis
      apply (rule exI [of _ added])
      using a by (auto simp: step)
  qed
qed

lemma clusterOuter_inv:
  assumes that: "set others \<subseteq> set enemies"
    and "clusters_inv store enemies s" and "enemy \<in> set enemies"
  shows "clusters_inv store enemies (clusterOuter store d others enemy s)"
proof (cases s)
  case (Pair clusters visited)
  show ?thesis
  proof (cases "eid (store ! enemy) \<in> visited")
    case True
    with assms(2) Pair show ?thesis by (simp add: clusterOuter_def)
  next
    case False
    from clusterInner_fold [of store d enemy others "[enemy]" "insert (eid (store ! enemy)) visited"]
    obtain added where a:
      "fst (fold (clusterInner store d enemy) others ([enemy], insert (eid (store ! enemy)) visited))
         = [enemy] @ added"
      "snd (fold (clusterInner store d enemy) others ([enemy], insert (eid (store ! enemy)) visited))
         = insert (eid (store ! enemy)) visited \<union> (\<lambda>r. eid (store ! r)) ` set added"
      "distinct (map (\<lambda>r. eid (store ! r)) added)"
      "(\<lambda>r. eid (store ! r)) ` set added \<inter> insert (eid (store ! enemy)) visited = {}"
      "set added \<subseteq> set others"
      by blast
    have res: "clusterOuter store d others enemy s
        = (clusters @ [enemy # added],
           insert (eid (store ! enemy)) visited \<union> (\<lambda>r. eid (store ! r)) ` set added)"
      using False Pair a by (simp add: clusterOuter_def Let_def)
    from assms(2) Pair have inv:
      "distinct (map (\<lambda>r. eid (store ! r)) (concat clusters))"
      "(\<lambda>r. eid (store ! r)) ` set (concat clusters) \<subseteq> visited"
      "set (concat clusters) \<subseteq> set enemies"
      by (simp_all add: clusters_inv_def)
    let ?ids = "\<lambda>r. eid (store ! r)"
    have d1: "?ids ` set (enemy # added) \<inter> ?ids ` set (concat clusters) = {}"
      using inv(2) a(4) False by (simp only: set_simps image_insert) blast
    have d2: "distinct (map ?ids (enemy # added))"
      using a(3,4) by auto
    have d3: "distinct (map ?ids (concat (clusters @ [enemy # added])))"
      using inv(1) d1 d2 by (simp only: concat_append map_append distinct_append set_map concat.simps append_Nil2) blast
    have d4: "?ids ` set (concat (clusters @ [enemy # added]))
                \<subseteq> insert (eid (store ! enemy)) visited \<union> ?ids ` set added"
      using inv(2) by auto
    have d5: "set (concat (clusters @ [enemy # added])) \<subseteq> set enemies"
      using inv(3) a(5) assms(3) that by auto
    show ?thesis
      unfolding res clusters_inv_def using d3 d4 d5 by simp
  qed
qed

lemma clusterOuter_fold_inv:
  assumes "clusters_inv store enemies s" and "set es \<subseteq> set enemies" and "set others \<subseteq> set enemies"
  shows "clusters_inv store enemies (fold (clusterOuter store d others) es s)"
  using assms
proof (induction es arbitrary: s)
  case Nil
  then show ?case by simp
next
  case (Cons e es)
  from Cons.prems have "e \<in> set enemies" "set es \<subseteq> set enemies" by simp_all
  from clusterOuter_inv [OF Cons.prems(3) Cons.prems(1) this(1)] Cons.IH this(2) Cons.prems(3)
  show ?case by simp
qed

lemma clusterEnemies_distinct:
  "distinct (map (\<lambda>r. eid (store ! r)) (concat (clusterEnemies store enemies d)))
   \<and> set (concat (clusterEnemies store enemies d)) \<subseteq> set enemies"
proof -
  have "clusters_inv store enemies ([], {})" by (simp add: clusters_inv_def)
  from clusterOuter_fold_inv [OF this, of enemies enemies d]
  show ?thesis by (simp add: clusters_inv_def clusterEnemies_def)
qed

section \<open>Formations\<close>

lemma string_of_nat_nonempty: "string_of_nat n \<noteq> []"
  by (subst string_of_nat.simps) simp

lemma string_of_nat_last: "last (string_of_nat n) = char_of (48 + n mod 10)"
  by (subst string_of_nat.simps) simp

lemma string_of_nat_butlast:
  "butlast (string_of_nat n) = (if n < 10 then [] else string_of_nat (n div 10))"
  by (subst string_of_nat.simps) simp

lemma digit_char_inj:
  assumes "char_of (48 + a) = (char_of (48 + b) :: char)" and "a < 10" and "b < 10"
  shows "a = (b :: nat)"
proof -
  from assms(2,3) have "48 + a \<in> {0..<256}" "48 + b \<in> {0..<256}" by simp_all
  with inj_on_char_of_nat assms(1) have "48 + a = 48 + b"
    by (rule inj_onD)
  then show ?thesis by simp
qed

lemma string_of_nat_inj: "string_of_nat n = string_of_nat m \<Longrightarrow> n = m"
proof (induction n arbitrary: m rule: string_of_nat.induct)
  case (1 n)
  from 1(2) have "last (string_of_nat n) = last (string_of_nat m)" by simp
  then have "char_of (48 + n mod 10) = (char_of (48 + m mod 10) :: char)"
    by (simp only: string_of_nat_last)
  then have md: "n mod 10 = m mod 10"
    by (rule digit_char_inj) simp_all
  from 1(2) have bl: "butlast (string_of_nat n) = butlast (string_of_nat m)" by simp
  show ?case
  proof (cases "n < 10")
    case True
    with bl have "m < 10"
      using string_of_nat_nonempty [of "m div 10"] by (auto simp: string_of_nat_butlast split: if_splits)
    with True md show ?thesis by simp
  next
    case False
    with bl have m: "\<not> m < 10"
      using string_of_nat_nonempty [of "n div 10"] by (auto simp: string_of_nat_butlast split: if_splits)
    with False bl have "string_of_nat (n div 10) = string_of_nat (m div 10)"
      by (simp add: string_of_nat_butlast)
    from 1(1) [OF False this] have "n div 10 = m div 10" .
    with md show ?thesis by (metis div_mult_mod_eq)
  qed
qed

lemma Map_set_fresh: "k \<notin> fst ` set ps \<Longrightarrow> Map_set ps k v = ps @ [(k, v)]"
  by (induction ps) auto

lemma roles_only_refl: "roles_only st st"
  by (simp add: roles_only_def)

lemma roles_only_trans: "roles_only a b \<Longrightarrow> roles_only b c \<Longrightarrow> roles_only a c"
  by (simp add: roles_only_def)

lemma roles_only_assignRole: "roles_only st (assignRole lid f ie st)"
proof (cases ie)
  case (Pair i r)
  show ?thesis
  proof (cases "r < length st")
    case True
    then show ?thesis
      unfolding Pair roles_only_def assignRole_def
      by (simp add: nth_list_update setFormationRole_def)
  next
    case False
    then have "st[r := setFormationRole (roleFor st lid i r) f (st ! r)] = st"
      by (simp add: list_update_beyond)
    then show ?thesis
      unfolding Pair roles_only_def assignRole_def by simp
  qed
qed

lemma roles_only_assign_fold: "roles_only st (fold (assignRole lid f) ies st)"
proof (induction ies arbitrary: st)
  case Nil
  show ?case by (simp add: roles_only_refl)
next
  case (Cons ie ies)
  from roles_only_trans [OF roles_only_assignRole Cons.IH]
  show ?case by simp
qed

lemma roles_only_pickLeader:
  assumes "roles_only st st'"
  shows "pickLeader st' g = pickLeader st g"
proof -
  have "(\<lambda>prev current. if js_greater (alertLevel (aiState (st' ! prev)))
                                       (alertLevel (aiState (st' ! current)))
                          then prev else current)
      = (\<lambda>prev current. if js_greater (alertLevel (aiState (st ! prev)))
                                       (alertLevel (aiState (st ! current)))
                          then prev else current)"
    using assms by (simp add: roles_only_def)
  then show ?thesis by (simp add: pickLeader_def)
qed

lemma roles_only_formationOf:
  assumes "roles_only st st'" and "playerThreatLevel c' = playerThreatLevel c"
  shows "formationOf c' st' pp now i g = formationOf c st pp now i g"
  using assms roles_only_pickLeader [OF assms(1), of g]
  by (simp add: formationOf_def roles_only_def selectFormationType_def)




lemma formGroup_simp:
  "formGroup pp now (n, g) (c, st)
     = (if 2 \<le> length g
        then (c\<lparr> formations := Map_set (formations c) (formationName n)
                                  (formationOf c st pp now n g) \<rparr>,
              fold (assignRole (eid (st ! pickLeader st g)) (formationName n))
                (enumerate 0 g) st)
        else (c, st))"
  by (simp add: formGroup_def Let_def formationOf_def)

lemma formGroup_roles_only: "roles_only st (snd (formGroup pp now ig (c, st)))"
  by (cases ig) (simp add: formGroup_simp roles_only_refl roles_only_assign_fold)

lemma formGroup_threat:
  "playerThreatLevel (fst (formGroup pp now ig (c, st))) = playerThreatLevel c
   \<and> lastFormationUpdate (fst (formGroup pp now ig (c, st))) = lastFormationUpdate c"
  by (cases ig) (simp add: formGroup_simp)


lemma formGroup_fold_roles_only:
  "roles_only st (snd (fold (formGroup pp now) igs (c, st)))"
proof (induction igs arbitrary: c st)
  case Nil
  show ?case by (simp add: roles_only_refl)
next
  case (Cons ig igs)
  obtain c1 st1 where s1: "formGroup pp now ig (c, st) = (c1, st1)" by (cases "formGroup pp now ig (c, st)")
  from formGroup_roles_only [of st pp now ig c] s1 have "roles_only st st1" by simp
  from roles_only_trans [OF this Cons.IH [of st1 c1]] s1 show ?case by simp
qed


lemma formGroup_fold_formations:
  assumes "roles_only st0 st"
    and "fst ` set (formations c) \<subseteq> (\<lambda>j. formationName j) ` {..<n}"
  shows "formations (fst (fold (formGroup pp now) (enumerate n gs) (c, st)))
           = formations c @ map (\<lambda>ig. (formationName (fst ig),
                                          formationOf c st0 pp now (fst ig) (snd ig)))
                              (filter (\<lambda>ig. 2 \<le> length (snd ig)) (enumerate n gs))"
  using assms
proof (induction gs arbitrary: n c st)
  case Nil
  show ?case by simp
next
  case (Cons g gs)
  obtain c1 st1 where s1: "formGroup pp now (n, g) (c, st) = (c1, st1)"
    by (cases "formGroup pp now (n, g) (c, st)")
  from formGroup_roles_only [of st pp now "(n, g)" c] s1 have "roles_only st st1" by simp
  with Cons.prems(1) have ro1: "roles_only st0 st1" by (rule roles_only_trans)
  from formGroup_threat [of pp now "(n, g)" c st] s1
  have th: "playerThreatLevel c1 = playerThreatLevel c" by simp
  have fo: "formationOf c1 st0 pp now i h = formationOf c st0 pp now i h" for i h
    using th by (simp add: formationOf_def selectFormationType_def)
  have fresh: "formationName n \<notin> fst ` set (formations c)"
  proof
    assume "formationName n \<in> fst ` set (formations c)"
    with Cons.prems(2) obtain j where "j < n" "formationName n = formationName j"
      by auto
    then show False using string_of_nat_inj [of n j] by (simp add: formationName_def)
  qed
  show ?case
  proof (cases "2 \<le> length g")
    case True
    with s1 have c1: "formations c1 = formations c @ [(formationName n, formationOf c st pp now n g)]"
      by (auto simp: formGroup_simp Map_set_fresh [OF fresh])
    have "formationOf c st pp now n g = formationOf c st0 pp now n g"
      by (rule roles_only_formationOf [OF Cons.prems(1)]) simp
    with c1 have c1': "formations c1 = formations c @ [(formationName n, formationOf c st0 pp now n g)]"
      by simp
    have keys1: "fst ` set (formations c1) \<subseteq> (\<lambda>j. formationName j) ` {..<Suc n}"
      using Cons.prems(2) c1' by (auto simp: lessThan_Suc)
    from Cons.IH [OF ro1 keys1] s1 True c1' show ?thesis by (simp add: fo)
  next
    case False
    with s1 have c1: "c1 = c" by (simp add: formGroup_simp)
    have keys1: "fst ` set (formations c1) \<subseteq> (\<lambda>j. formationName j) ` {..<Suc n}"
      using Cons.prems(2) c1 by (auto simp: lessThan_Suc)
    from Cons.IH [OF ro1 keys1] s1 False c1 show ?thesis by simp
  qed
qed


lemma enumerate_filter_map:
  "map (\<lambda>ig. h (snd ig)) (filter (\<lambda>ig. p (snd ig)) (enumerate n gs)) = map h (filter p gs)"
  by (induction gs arbitrary: n) simp_all

lemma distinct_concat_filter: "distinct (concat xss) \<Longrightarrow> distinct (concat (filter p xss))"
  by (induction xss) auto

lemma updateFormations_run:
  assumes "\<not> now - lastFormationUpdate c < 2000"
  shows "updateFormations enemies pp now (c, store)
           = fold (formGroup pp now)
               (enumerate 0 (clusterEnemies store (aliveEnemies store enemies) 12))
               (c\<lparr> lastFormationUpdate := now, formations := [] \<rparr>, store)"
  using assms by (simp add: updateFormations_def Let_def)

lemma updateFormations_formations:
  assumes "\<not> now - lastFormationUpdate c < 2000"
  shows "formations (fst (updateFormations enemies pp now (c, store)))
           = map (\<lambda>ig. (formationName (fst ig), formationOf c store pp now (fst ig) (snd ig)))
               (filter (\<lambda>ig. 2 \<le> length (snd ig))
                  (enumerate 0 (clusterEnemies store (aliveEnemies store enemies) 12)))"
proof -
  let ?c1 = "c\<lparr> lastFormationUpdate := now, formations := [] \<rparr>"
  have fo: "formationOf ?c1 store pp now i h = formationOf c store pp now i h" for i h
    by (simp add: formationOf_def selectFormationType_def)
  have "formations (fst (fold (formGroup pp now)
            (enumerate 0 (clusterEnemies store (aliveEnemies store enemies) 12)) (?c1, store)))
          = formations ?c1 @ map (\<lambda>ig. (formationName (fst ig), formationOf ?c1 store pp now (fst ig) (snd ig)))
               (filter (\<lambda>ig. 2 \<le> length (snd ig))
                  (enumerate 0 (clusterEnemies store (aliveEnemies store enemies) 12)))"
    by (rule formGroup_fold_formations [OF roles_only_refl]) simp
  then show ?thesis by (simp add: updateFormations_run [OF assms] fo)
qed

text \<open>
  C5. A call of \<^verbatim>\<open>updateFormations\<close> inside the two seconds after the last one creates
  nothing. Otherwise the member lists of the formations it creates are the id lists of the
  clusters of two or more enemies, in order; no id occurs twice in them, within one
  formation or across formations, and every formation has at least two members. This holds
  for every array of enemies, whether their ids are pairwise distinct or not.
\<close>

theorem formations_disjoint:
  "(now - lastFormationUpdate c < 2000 \<longrightarrow>
      updateFormations enemies pp now (c, store) = (c, store))
   \<and> (\<not> now - lastFormationUpdate c < 2000 \<longrightarrow>
        map (\<lambda>f. members (snd f)) (formations (fst (updateFormations enemies pp now (c, store))))
          = map (map (\<lambda>r. eid (store ! r)))
              (filter (\<lambda>g. 2 \<le> length g) (clusterEnemies store (aliveEnemies store enemies) 12))
        \<and> distinct (concat (map (\<lambda>f. members (snd f))
              (formations (fst (updateFormations enemies pp now (c, store))))))
        \<and> (\<forall>f\<in>set (formations (fst (updateFormations enemies pp now (c, store)))).
              2 \<le> length (members (snd f))))"
proof (intro conjI impI)
  assume "now - lastFormationUpdate c < 2000"
  then show "updateFormations enemies pp now (c, store) = (c, store)"
    by (simp add: updateFormations_def)
next
  let ?groups = "clusterEnemies store (aliveEnemies store enemies) 12"
  let ?forms = "formations (fst (updateFormations enemies pp now (c, store)))"
  assume run: "\<not> now - lastFormationUpdate c < 2000"
  have "map (\<lambda>f. members (snd f)) ?forms
          = map (\<lambda>ig. map (\<lambda>r. eid (store ! r)) (snd ig))
              (filter (\<lambda>ig. 2 \<le> length (snd ig)) (enumerate 0 ?groups))"
    by (simp add: updateFormations_formations [OF run] formationOf_def comp_def)
  also have "\<dots> = map (map (\<lambda>r. eid (store ! r))) (filter (\<lambda>g. 2 \<le> length g) ?groups)"
    by (rule enumerate_filter_map)
  finally show m: "map (\<lambda>f. members (snd f)) ?forms
          = map (map (\<lambda>r. eid (store ! r))) (filter (\<lambda>g. 2 \<le> length g) ?groups)" .
  have a: "distinct (concat (map (map (\<lambda>r. eid (store ! r))) ?groups))"
    using clusterEnemies_distinct [of store "aliveEnemies store enemies" 12]
    by (simp only: map_concat)
  have b: "filter (\<lambda>g. 2 \<le> length g) (map (map (\<lambda>r. eid (store ! r))) ?groups)
            = map (map (\<lambda>r. eid (store ! r))) (filter (\<lambda>g. 2 \<le> length g) ?groups)"
    by (simp add: filter_map comp_def)
  from distinct_concat_filter [OF a, of "\<lambda>g. 2 \<le> length g"]
  show "distinct (concat (map (\<lambda>f. members (snd f)) ?forms))"
    by (simp only: m b)
  show "\<forall>f\<in>set ?forms. 2 \<le> length (members (snd f))"
  proof
    fix f assume "f \<in> set ?forms"
    then have "members (snd f) \<in> set (map (\<lambda>f. members (snd f)) ?forms)" by simp
    then show "2 \<le> length (members (snd f))" unfolding m by auto
  qed
qed

lemmas formation_eval =
  updateFormations_def aliveEnemies_def clusterEnemies_def clusterOuter_def clusterInner_def
  formGroup_def formationOf_def pickLeader_def assignRole_def roleFor_def setFormationRole_def
  selectFormationType_def formationName_def string_of_nat.simps [of 0] isAlive_def
  isBeingThrown_def new_Enemy_def trio_def quartet_def player_origin_def distanceTo_le
  distanceToSquared_def new_AICoordinator_def Let_def

lemma quartet_formations:
  "map (\<lambda>f. members (snd f))
     (formations (fst (updateFormations [0, 1, 2, 3] player_origin 5000 (new_AICoordinator, quartet))))
   = [[''enemy_a'', ''enemy_b'', ''enemy_c'']]"
  by (simp add: formation_eval)

theorem formations_disjoint_witness:
  "\<not> 5000 - lastFormationUpdate new_AICoordinator < 2000
   \<and> clusterEnemies quartet (aliveEnemies quartet [0, 1, 2, 3]) 12 = [[0, 1, 2], [3]]
   \<and> map (\<lambda>f. members (snd f))
        (formations (fst (updateFormations [0, 1, 2, 3] player_origin 5000 (new_AICoordinator, quartet))))
      = [[''enemy_a'', ''enemy_b'', ''enemy_c'']]
   \<and> distinct (concat (map (\<lambda>f. members (snd f))
        (formations (fst (updateFormations [0, 1, 2, 3] player_origin 5000 (new_AICoordinator, quartet))))))"
proof -
  have r: "\<not> 5000 - lastFormationUpdate new_AICoordinator < 2000"
    by (simp add: new_AICoordinator_def)
  have g: "clusterEnemies quartet (aliveEnemies quartet [0, 1, 2, 3]) 12 = [[0, 1, 2], [3]]"
    by (simp add: formation_eval)
  from formations_disjoint [of 5000 new_AICoordinator "[0, 1, 2, 3]" player_origin quartet] r g
  show ?thesis by (simp add: quartet_def trio_def new_Enemy_def)
qed



lemma roles_only_unset: "roles_only st st' \<Longrightarrow> alertsUnset st \<Longrightarrow> alertsUnset st'"
  by (simp add: roles_only_def alertsUnset_def list_all_length)

lemma updateFormations_unset:
  assumes "alertsUnset store"
  shows "alertsUnset (snd (updateFormations enemies pp now (c, store)))"
proof (cases "now - lastFormationUpdate c < 2000")
  case True
  with assms show ?thesis by (simp add: updateFormations_def)
next
  case False
  from formGroup_fold_roles_only [of store pp now _ "c\<lparr> lastFormationUpdate := now, formations := [] \<rparr>"]
  have "roles_only store (snd (updateFormations enemies pp now (c, store)))"
    by (simp add: updateFormations_run [OF False])
  from roles_only_unset [OF this assms] show ?thesis .
qed






lemma indexOf_nth: "distinct xs \<Longrightarrow> i < length xs \<Longrightarrow> indexOf xs (xs ! i) = int i"
proof (induction xs arbitrary: i)
  case Nil
  then show ?case by simp
next
  case (Cons b bs)
  show ?case
  proof (cases i)
    case 0
    then show ?thesis by simp
  next
    case (Suc j)
    with Cons.prems have j: "j < length bs" and d: "distinct bs" and "b \<notin> set bs" by simp_all
    then have "bs ! j \<noteq> b" by auto
    with Cons.IH [OF d j] Suc show ?thesis by simp
  qed
qed

text \<open>
  C9. For a formation of type \<^verbatim>\<open>surround\<close> with distinct members,
  \<^verbatim>\<open>getFormationPosition\<close> puts the member at index \<open>i\<close> of \<open>n\<close> on the circle around the
  player position at the angle \<open>i * (2 * pi / n)\<close> and at the distance \<open>8 + 4 * random1\<close>,
  which is at least 8 and below 12; with five members the angle is \<open>i\<close> times 72 degrees.
  The numbers are real numbers here.
\<close>

theorem surround_position:
  assumes "map_of (formations c) formId = Some formation"
    and "formationType formation = surround"
    and "distinct (members formation)"
    and "i < length (members formation)"
    and "0 \<le> random1" and "random1 < 1"
  shows "getFormationPosition c random1 random2 random3 (members formation ! i) role formId
             currentPos playerPos
           = \<lparr> vx = vx playerPos
                     + cos (real i * (2 * pi / real (length (members formation)))) * (8 + random1 * 4),
               vy = vy playerPos,
               vz = vz playerPos
                     + sin (real i * (2 * pi / real (length (members formation)))) * (8 + random1 * 4) \<rparr>
         \<and> 8 \<le> 8 + random1 * 4 \<and> 8 + random1 * 4 < 12
         \<and> (length (members formation) = 5 \<longrightarrow>
               real i * (2 * pi / real (length (members formation))) = real i * (72 * pi / 180))"
  using assms
  by (simp add: getFormationPosition_def getSurroundPosition_def indexOf_nth Let_def mult.commute)

theorem surround_position_witness:
  "map_of (formations ring_coordinator) (formationName 0)
     = Some \<lparr> fid = formationName 0, leader = ''e0'',
               members = [''e0'', ''e1'', ''e2'', ''e3'', ''e4''],
               targetPosition = player_origin, formationType = surround, lastUpdate = 0 \<rparr>
   \<and> getFormationPosition ring_coordinator (1 / 2) 0 0 ''e2'' flanker (formationName 0)
         \<lparr> vx = 9, vy = 0, vz = 9 \<rparr> player_origin
       = \<lparr> vx = 1 + cos (2 * (72 * pi / 180)) * 10, vy = 0,
           vz = 1 + sin (2 * (72 * pi / 180)) * 10 \<rparr>"
proof -
  let ?f = "\<lparr> fid = formationName 0, leader = ''e0'',
               members = [''e0'', ''e1'', ''e2'', ''e3'', ''e4''],
               targetPosition = player_origin, formationType = surround, lastUpdate = 0 \<rparr>"
  have m: "map_of (formations ring_coordinator) (formationName 0) = Some ?f"
    by (simp add: ring_coordinator_def new_AICoordinator_def)
  have t: "formationType ?f = surround" by simp
  have d: "distinct (members ?f)" by simp
  have i: "2 < length (members ?f)" by simp
  have r: "(0::real) \<le> 1 / 2" "(1::real) / 2 < 1" by simp_all
  from surround_position [OF m t d i r, of 0 0 flanker "\<lparr> vx = 9, vy = 0, vz = 9 \<rparr>" player_origin]
  have "getFormationPosition ring_coordinator (1 / 2) 0 0 ''e2'' flanker (formationName 0)
         \<lparr> vx = 9, vy = 0, vz = 9 \<rparr> player_origin
       = \<lparr> vx = vx player_origin + cos (real 2 * (2 * pi / real 5)) * (8 + 1 / 2 * 4),
           vy = vy player_origin,
           vz = vz player_origin + sin (real 2 * (2 * pi / real 5)) * (8 + 1 / 2 * 4) \<rparr>"
    by simp
  moreover have "real 2 * (2 * pi / real 5) = 2 * (72 * pi / 180)" by simp
  ultimately show ?thesis using m by (simp add: player_origin_def)
qed

end
